theory Spec2Isabelle
  imports Complex_Main
begin

section \<open>JavaScript numbers\<close>

text \<open>
  A TypeScript \<open>number\<close> is modelled as a rational, one of the two infinities, or
  \<open>NaN\<close>. \<open>parseInt\<close> rounds to a double and overflows to an infinity. Sums and
  differences are exact in the model and the sign of zero is not kept: this is what
  doubles compute on the sub-pixel grid (\<open>on_grid\<close> below), and the one theorem that
  depends on exact sums takes the grid as its hypothesis.
\<close>

datatype number = Fin rat | PInf | NInf | NaN

fun isFinite :: "number \<Rightarrow> bool" where
  "isFinite (Fin a) = True"
| "isFinite PInf = False"
| "isFinite NInf = False"
| "isFinite NaN = False"

instantiation number :: plus
begin

fun plus_number :: "number \<Rightarrow> number \<Rightarrow> number" where
  "plus_number (Fin a) (Fin b) = Fin (a + b)"
| "plus_number NaN y = NaN"
| "plus_number x NaN = NaN"
| "plus_number PInf NInf = NaN"
| "plus_number NInf PInf = NaN"
| "plus_number PInf y = PInf"
| "plus_number x PInf = PInf"
| "plus_number NInf y = NInf"
| "plus_number x NInf = NInf"

instance ..

end

instantiation number :: uminus
begin

fun uminus_number :: "number \<Rightarrow> number" where
  "uminus_number (Fin a) = Fin (- a)"
| "uminus_number PInf = NInf"
| "uminus_number NInf = PInf"
| "uminus_number NaN = NaN"

instance ..

end

instantiation number :: minus
begin

definition minus_number :: "number \<Rightarrow> number \<Rightarrow> number" where
  "minus_number x y = x + (- y)"

instance ..

end

instantiation number :: abs
begin

fun abs_number :: "number \<Rightarrow> number" where
  "abs_number (Fin a) = Fin \<bar>a\<bar>"
| "abs_number PInf = PInf"
| "abs_number NInf = PInf"
| "abs_number NaN = NaN"

instance ..

end

text \<open>Comparisons with \<open>NaN\<close> are false on both sides.\<close>

instantiation number :: ord
begin

fun less_eq_number :: "number \<Rightarrow> number \<Rightarrow> bool" where
  "less_eq_number (Fin a) (Fin b) = (a \<le> b)"
| "less_eq_number NaN y = False"
| "less_eq_number x NaN = False"
| "less_eq_number NInf y = True"
| "less_eq_number x PInf = True"
| "less_eq_number PInf y = False"
| "less_eq_number x NInf = False"

fun less_number :: "number \<Rightarrow> number \<Rightarrow> bool" where
  "less_number (Fin a) (Fin b) = (a < b)"
| "less_number NaN y = False"
| "less_number x NaN = False"
| "less_number PInf y = False"
| "less_number x NInf = False"
| "less_number NInf y = True"
| "less_number x PInf = True"

instance ..

end

text \<open>\<open>x / 2\<close>, the only division of the alignment code.\<close>

fun half :: "number \<Rightarrow> number" where
  "half (Fin a) = Fin (a / 2)"
| "half PInf = PInf"
| "half NInf = NInf"
| "half NaN = NaN"

text \<open>\<open>x || 0\<close>: zero and \<open>NaN\<close> are falsy, every other number is kept.\<close>

fun truthy :: "number \<Rightarrow> bool" where
  "truthy (Fin a) = (a \<noteq> 0)"
| "truthy PInf = True"
| "truthy NInf = True"
| "truthy NaN = False"

definition or_zero :: "number \<Rightarrow> number" where
  "or_zero x = (if truthy x then x else Fin 0)"

subsection \<open>Strings and parseInt\<close>

text \<open>
  A JavaScript string is a list of UTF-16 code units; \<open>js\<close> gives the code units of an
  ASCII literal.
\<close>

type_synonym js_string = "int list"

definition js :: "string \<Rightarrow> js_string" where
  "js str = map of_char str"

text \<open>
  The integer a digit run denotes becomes the nearest double, ties to even, and an
  infinity from \<open>2 ^ 1024 - 2 ^ 970\<close> on. \<open>dropped_bits n\<close> is the number of low bits that
  do not fit the 53-bit significand.
\<close>

function dropped_bits :: "int \<Rightarrow> nat" where
  "dropped_bits n = (if n < 2 ^ 53 then 0 else Suc (dropped_bits (n div 2)))"
  by pat_completeness auto
termination
  by (relation "measure nat") auto

definition nearest_double :: "int \<Rightarrow> number" where
  "nearest_double n =
     (if n < 2 ^ 53 then Fin (of_int n)
      else
        let e = dropped_bits n;
            q = n div 2 ^ e;
            r = n mod 2 ^ e;
            q' = (if 2 ^ e < 2 * r \<or> (2 * r = 2 ^ e \<and> odd q) then q + 1 else q);
            m = q' * 2 ^ e
        in if 2 ^ 1024 \<le> m then PInf else Fin (of_int m))"

text \<open>
  \<open>parseInt(string)\<close> without a radix: leading white space and line terminators are
  skipped, one sign is read, a \<open>0x\<close> prefix selects radix 16, and the longest run of
  digits is the value; no digit gives \<open>NaN\<close>. For more than 20 decimal digits an engine
  may round the digit run before converting it; the model converts the exact integer.
\<close>

definition isWhiteSpace :: "int \<Rightarrow> bool" where
  "isWhiteSpace c =
     (c \<in> {9, 10, 11, 12, 13, 32, 160, 5760, 8232, 8233, 8239, 8287, 12288, 65279} \<or>
      (8192 \<le> c \<and> c \<le> 8202))"

definition digitValue :: "int \<Rightarrow> int option" where
  "digitValue k =
     (if 48 \<le> k \<and> k \<le> 57 then Some (k - 48)
      else if 97 \<le> k \<and> k \<le> 122 then Some (k - 87)
      else if 65 \<le> k \<and> k \<le> 90 then Some (k - 55)
      else None)"

definition isDigit :: "int \<Rightarrow> int \<Rightarrow> bool" where
  "isDigit R c = (case digitValue c of None \<Rightarrow> False | Some v \<Rightarrow> v < R)"

definition digitsValue :: "int \<Rightarrow> js_string \<Rightarrow> int" where
  "digitsValue R Z =
     foldl (\<lambda>acc c. acc * R + (case digitValue c of None \<Rightarrow> 0 | Some v \<Rightarrow> v)) 0 Z"

definition parseInt :: "js_string \<Rightarrow> number" where
  "parseInt inputString =
     (let S = dropWhile isWhiteSpace inputString;
          neg = (case S of [] \<Rightarrow> False | c # _ \<Rightarrow> c = of_char CHR ''-'');
          S1 = (case S of [] \<Rightarrow> S
                | c # r \<Rightarrow> if c = of_char CHR ''+'' \<or> c = of_char CHR ''-'' then r else S);
          hex = (case S1 of
                   c0 # c1 # _ \<Rightarrow>
                     c0 = of_char CHR ''0'' \<and> (c1 = of_char CHR ''x'' \<or> c1 = of_char CHR ''X'')
                 | _ \<Rightarrow> False);
          R = (if hex then 16 else 10);
          S2 = (if hex then drop 2 S1 else S1);
          Z = takeWhile (isDigit R) S2
      in if Z = [] then NaN
         else if neg then - nearest_double (digitsValue R Z)
         else nearest_double (digitsValue R Z))"

section \<open>The data model of alignment.ts\<close>

text \<open>
  A note is an \<open>HTMLDivElement\<close>. \<open>ref\<close> is the identity of the object, which is what
  \<open>===\<close> compares; \<open>id_el\<close> is its \<open>id\<close> attribute, which need not be unique and is
  only copied, never read; \<open>style_left\<close> and \<open>style_top\<close> are the strings \<open>style.left\<close>
  and \<open>style.top\<close>; \<open>offsetWidth\<close> and \<open>offsetHeight\<close> are integers in the DOM.
\<close>

record HTMLDivElement =
  ref :: nat
  id_el :: string
  style_left :: js_string
  style_top :: js_string
  offsetWidth :: int
  offsetHeight :: int

record NoteBounds =
  id_nb :: string
  left :: number
  top_nb :: number
  right :: number
  bottom :: number
  width :: number
  height :: number
  centerX :: number
  centerY :: number

datatype guide_type = vertical | horizontal

record AlignmentGuide =
  type_g :: guide_type
  position :: number
  strength :: number
  sourceId :: string

record SnapResult =
  snapped :: bool
  deltaX :: number
  deltaY :: number
  guides_r :: "AlignmentGuide list"

definition num :: "int \<Rightarrow> number" where
  "num k = Fin (of_int k)"

section \<open>The 2D canvas\<close>

text \<open>
  The part of the canvas API that \<open>renderGuides\<close> and \<open>clearGuides\<close> call. The bitmap
  is a display list: what was painted since the canvas was last blank. The drawing state
  that \<open>save\<close> pushes and \<open>restore\<close> pops is the stroke style, the line width and
  the dash list; the current path is not part of it. No transformation or clipping region
  is ever set by the code, and a colour is kept as the string that was assigned.
\<close>

record HTMLCanvasElement =
  canvas_width :: int
  canvas_height :: int

record Window =
  innerWidth :: int
  innerHeight :: int

type_synonym point = "number \<times> number"

datatype paint =
  Stroke string number "number list" "point list list"
| Erase number number number number

record CanvasRenderingContext2D =
  strokeStyle :: string
  lineWidth :: number
  lineDash :: "number list"
  path :: "point list list"
  saved :: "(string \<times> number \<times> number list) list"
  bitmap :: "paint list"

definition fresh_ctx :: CanvasRenderingContext2D where
  "fresh_ctx = \<lparr>strokeStyle = ''#000000'', lineWidth = Fin 1, lineDash = [], path = [],
     saved = [], bitmap = []\<rparr>"

text \<open>A rectangle that covers the whole canvas leaves the bitmap blank.\<close>

definition clearRect ::
  "number \<Rightarrow> number \<Rightarrow> number \<Rightarrow> number \<Rightarrow> HTMLCanvasElement \<Rightarrow>
   CanvasRenderingContext2D \<Rightarrow> CanvasRenderingContext2D" where
  "clearRect x y w h cv c =
     (if x \<le> Fin 0 \<and> y \<le> Fin 0 \<and> num (canvas_width cv) \<le> x + w \<and> num (canvas_height cv) \<le> y + h
      then c\<lparr>bitmap := []\<rparr>
      else c\<lparr>bitmap := bitmap c @ [Erase x y w h]\<rparr>)"

definition save :: "CanvasRenderingContext2D \<Rightarrow> CanvasRenderingContext2D" where
  "save c = c\<lparr>saved := (strokeStyle c, lineWidth c, lineDash c) # saved c\<rparr>"

definition restore :: "CanvasRenderingContext2D \<Rightarrow> CanvasRenderingContext2D" where
  "restore c =
     (case saved c of
        [] \<Rightarrow> c
      | (ss, lw, ld) # r \<Rightarrow> c\<lparr>strokeStyle := ss, lineWidth := lw, lineDash := ld, saved := r\<rparr>)"

definition set_strokeStyle :: "string \<Rightarrow> CanvasRenderingContext2D \<Rightarrow> CanvasRenderingContext2D" where
  "set_strokeStyle v c = c\<lparr>strokeStyle := v\<rparr>"

definition set_lineWidth :: "number \<Rightarrow> CanvasRenderingContext2D \<Rightarrow> CanvasRenderingContext2D" where
  "set_lineWidth v c = (if isFinite v \<and> Fin 0 < v then c\<lparr>lineWidth := v\<rparr> else c)"

definition setLineDash :: "number list \<Rightarrow> CanvasRenderingContext2D \<Rightarrow> CanvasRenderingContext2D" where
  "setLineDash segments c =
     (if list_all (\<lambda>v. isFinite v \<and> Fin 0 \<le> v) segments
      then c\<lparr>lineDash := (if odd (length segments) then segments @ segments else segments)\<rparr>
      else c)"

definition beginPath :: "CanvasRenderingContext2D \<Rightarrow> CanvasRenderingContext2D" where
  "beginPath c = c\<lparr>path := []\<rparr>"

definition moveTo :: "number \<Rightarrow> number \<Rightarrow> CanvasRenderingContext2D \<Rightarrow> CanvasRenderingContext2D" where
  "moveTo x y c = (if isFinite x \<and> isFinite y then c\<lparr>path := path c @ [[(x, y)]]\<rparr> else c)"

definition lineTo :: "number \<Rightarrow> number \<Rightarrow> CanvasRenderingContext2D \<Rightarrow> CanvasRenderingContext2D" where
  "lineTo x y c =
     (if \<not> (isFinite x \<and> isFinite y) then c
      else if path c = [] then c\<lparr>path := [[(x, y)]]\<rparr>
      else c\<lparr>path := butlast (path c) @ [last (path c) @ [(x, y)]]\<rparr>)"

definition stroke :: "CanvasRenderingContext2D \<Rightarrow> CanvasRenderingContext2D" where
  "stroke c = c\<lparr>bitmap := bitmap c @ [Stroke (strokeStyle c) (lineWidth c) (lineDash c) (path c)]\<rparr>"

section \<open>AlignmentSystem\<close>

record AlignmentSystem =
  snapThreshold :: number
  guides :: "AlignmentGuide list"
  canvas :: HTMLCanvasElement
  ctx :: CanvasRenderingContext2D
  enabled :: bool

datatype error = Error string

text \<open>Assigning \<open>canvas.width\<close> or \<open>canvas.height\<close> resets the context and blanks the bitmap.\<close>

definition resizeCanvas :: "Window \<Rightarrow> AlignmentSystem \<Rightarrow> AlignmentSystem" where
  "resizeCanvas window s =
     s\<lparr>canvas := \<lparr>canvas_width = innerWidth window, canvas_height = innerHeight window\<rparr>,
       ctx := fresh_ctx\<rparr>"

text \<open>
  The constructor. Its third argument is what \<open>canvas.getContext('2d')\<close> returns, \<open>None\<close>
  for \<open>null\<close>. The field initialisers give the threshold 4, no guides, and snapping on.
\<close>

definition initialised :: "HTMLCanvasElement \<Rightarrow> CanvasRenderingContext2D \<Rightarrow> AlignmentSystem" where
  "initialised cv c = \<lparr>snapThreshold = Fin 4, guides = [], canvas = cv, ctx = c, enabled = True\<rparr>"

definition new_AlignmentSystem ::
  "Window \<Rightarrow> HTMLCanvasElement \<Rightarrow> CanvasRenderingContext2D option \<Rightarrow> error + AlignmentSystem" where
  "new_AlignmentSystem window cv got =
     (case got of
        None \<Rightarrow> Inl (Error ''Could not get 2D context'')
      | Some c \<Rightarrow> Inr (resizeCanvas window (initialised cv c)))"

definition clearGuides :: "AlignmentSystem \<Rightarrow> AlignmentSystem" where
  "clearGuides s =
     (let s1 = s\<lparr>guides := []\<rparr>
      in s1\<lparr>ctx := clearRect (Fin 0) (Fin 0) (num (canvas_width (canvas s1)))
                  (num (canvas_height (canvas s1))) (canvas s1) (ctx s1)\<rparr>)"

definition setEnabled :: "bool \<Rightarrow> AlignmentSystem \<Rightarrow> AlignmentSystem" where
  "setEnabled e s = (let s1 = s\<lparr>enabled := e\<rparr> in if \<not> e then clearGuides s1 else s1)"

definition drawGuide ::
  "HTMLCanvasElement \<Rightarrow> AlignmentGuide \<Rightarrow> CanvasRenderingContext2D \<Rightarrow> CanvasRenderingContext2D" where
  "drawGuide cv guide c =
     (let c1 = save c;
          c2 = set_strokeStyle ''rgba(255, 0, 100, 0.8)'' c1;
          c3 = set_lineWidth (Fin 1) c2;
          c4 = setLineDash [Fin 5, Fin 5] c3;
          c5 = beginPath c4;
          c6 = (if type_g guide = vertical
                then lineTo (position guide) (num (canvas_height cv)) (moveTo (position guide) (Fin 0) c5)
                else lineTo (num (canvas_width cv)) (position guide) (moveTo (Fin 0) (position guide) c5));
          c7 = stroke c6
      in restore c7)"

definition renderGuides :: "AlignmentSystem \<Rightarrow> AlignmentSystem" where
  "renderGuides s =
     (let c0 = clearRect (Fin 0) (Fin 0) (num (canvas_width (canvas s)))
                 (num (canvas_height (canvas s))) (canvas s) (ctx s)
      in s\<lparr>ctx := fold (drawGuide (canvas s)) (guides s) c0\<rparr>)"

subsection \<open>calculateSnap\<close>

text \<open>
  The variables the \<open>forEach\<close> callback of \<open>calculateSnap\<close> closes over and assigns:
  the locals \<open>snapX\<close>, \<open>snapY\<close>, \<open>snappedX\<close>, \<open>snappedY\<close>, and \<open>this\<close>, whose
  \<open>guides\<close> it pushes to.
\<close>

record frame =
  this :: AlignmentSystem
  snapX :: number
  snapY :: number
  snappedX :: bool
  snappedY :: bool

definition push_guide :: "AlignmentGuide \<Rightarrow> frame \<Rightarrow> frame" where
  "push_guide g f = f\<lparr>this := (this f)\<lparr>guides := guides (this f) @ [g]\<rparr>\<rparr>"

definition draggedBounds_of :: "HTMLDivElement \<Rightarrow> number \<Rightarrow> number \<Rightarrow> NoteBounds" where
  "draggedBounds_of draggedNote currentX currentY =
     \<lparr>id_nb = id_el draggedNote,
      left = currentX,
      top_nb = currentY,
      right = currentX + num (offsetWidth draggedNote),
      bottom = currentY + num (offsetHeight draggedNote),
      width = num (offsetWidth draggedNote),
      height = num (offsetHeight draggedNote),
      centerX = currentX + half (num (offsetWidth draggedNote)),
      centerY = currentY + half (num (offsetHeight draggedNote))\<rparr>"

definition targetBounds_of :: "HTMLDivElement \<Rightarrow> NoteBounds" where
  "targetBounds_of note =
     \<lparr>id_nb = id_el note,
      left = or_zero (parseInt (style_left note)),
      top_nb = or_zero (parseInt (style_top note)),
      right = or_zero (parseInt (style_left note)) + num (offsetWidth note),
      bottom = or_zero (parseInt (style_top note)) + num (offsetHeight note),
      width = num (offsetWidth note),
      height = num (offsetHeight note),
      centerX = or_zero (parseInt (style_left note)) + half (num (offsetWidth note)),
      centerY = or_zero (parseInt (style_top note)) + half (num (offsetHeight note))\<rparr>"

text \<open>The block guarded by \<open>if (!snappedX)\<close>: left edges, right edges, and centres.\<close>

definition checkVertical :: "NoteBounds \<Rightarrow> NoteBounds \<Rightarrow> HTMLDivElement \<Rightarrow> frame \<Rightarrow> frame" where
  "checkVertical draggedBounds targetBounds note f =
     (if \<not> snappedX f then
        (if \<bar>left draggedBounds - left targetBounds\<bar> \<le> snapThreshold (this f) then
           push_guide \<lparr>type_g = vertical, position = left targetBounds, strength = Fin 1,
               sourceId = id_el note\<rparr>
             (f\<lparr>snapX := left targetBounds, snappedX := True\<rparr>)
         else if \<bar>right draggedBounds - right targetBounds\<bar> \<le> snapThreshold (this f) then
           push_guide \<lparr>type_g = vertical, position = right targetBounds, strength = Fin 1,
               sourceId = id_el note\<rparr>
             (f\<lparr>snapX := right targetBounds - width draggedBounds, snappedX := True\<rparr>)
         else if \<bar>left draggedBounds - right targetBounds\<bar> \<le> snapThreshold (this f) then
           push_guide \<lparr>type_g = vertical, position = right targetBounds, strength = Fin 1,
               sourceId = id_el note\<rparr>
             (f\<lparr>snapX := right targetBounds, snappedX := True\<rparr>)
         else if \<bar>right draggedBounds - left targetBounds\<bar> \<le> snapThreshold (this f) then
           push_guide \<lparr>type_g = vertical, position = left targetBounds, strength = Fin 1,
               sourceId = id_el note\<rparr>
             (f\<lparr>snapX := left targetBounds - width draggedBounds, snappedX := True\<rparr>)
         else if \<bar>centerX draggedBounds - centerX targetBounds\<bar> \<le> snapThreshold (this f) then
           push_guide \<lparr>type_g = vertical, position = centerX targetBounds, strength = Fin 1,
               sourceId = id_el note\<rparr>
             (f\<lparr>snapX := centerX targetBounds - half (width draggedBounds), snappedX := True\<rparr>)
         else f)
      else f)"

text \<open>The block guarded by \<open>if (!snappedY)\<close>: top edges, bottom edges, and centres.\<close>

definition checkHorizontal :: "NoteBounds \<Rightarrow> NoteBounds \<Rightarrow> HTMLDivElement \<Rightarrow> frame \<Rightarrow> frame" where
  "checkHorizontal draggedBounds targetBounds note f =
     (if \<not> snappedY f then
        (if \<bar>top_nb draggedBounds - top_nb targetBounds\<bar> \<le> snapThreshold (this f) then
           push_guide \<lparr>type_g = horizontal, position = top_nb targetBounds, strength = Fin 1,
               sourceId = id_el note\<rparr>
             (f\<lparr>snapY := top_nb targetBounds, snappedY := True\<rparr>)
         else if \<bar>bottom draggedBounds - bottom targetBounds\<bar> \<le> snapThreshold (this f) then
           push_guide \<lparr>type_g = horizontal, position = bottom targetBounds, strength = Fin 1,
               sourceId = id_el note\<rparr>
             (f\<lparr>snapY := bottom targetBounds - height draggedBounds, snappedY := True\<rparr>)
         else if \<bar>top_nb draggedBounds - bottom targetBounds\<bar> \<le> snapThreshold (this f) then
           push_guide \<lparr>type_g = horizontal, position = bottom targetBounds, strength = Fin 1,
               sourceId = id_el note\<rparr>
             (f\<lparr>snapY := bottom targetBounds, snappedY := True\<rparr>)
         else if \<bar>bottom draggedBounds - top_nb targetBounds\<bar> \<le> snapThreshold (this f) then
           push_guide \<lparr>type_g = horizontal, position = top_nb targetBounds, strength = Fin 1,
               sourceId = id_el note\<rparr>
             (f\<lparr>snapY := top_nb targetBounds - height draggedBounds, snappedY := True\<rparr>)
         else if \<bar>centerY draggedBounds - centerY targetBounds\<bar> \<le> snapThreshold (this f) then
           push_guide \<lparr>type_g = horizontal, position = centerY targetBounds, strength = Fin 1,
               sourceId = id_el note\<rparr>
             (f\<lparr>snapY := centerY targetBounds - half (height draggedBounds), snappedY := True\<rparr>)
         else f)
      else f)"

text \<open>The callback of \<open>allNotes.forEach\<close>.\<close>

definition noteStep :: "HTMLDivElement \<Rightarrow> NoteBounds \<Rightarrow> HTMLDivElement \<Rightarrow> frame \<Rightarrow> frame" where
  "noteStep draggedNote draggedBounds note f =
     (if ref note = ref draggedNote then f
      else let targetBounds = targetBounds_of note
           in checkHorizontal draggedBounds targetBounds note
                (checkVertical draggedBounds targetBounds note f))"

text \<open>The frame when \<open>forEach\<close> has returned, for a system with snapping on.\<close>

definition snapLoop ::
  "AlignmentSystem \<Rightarrow> HTMLDivElement \<Rightarrow> HTMLDivElement list \<Rightarrow> number \<Rightarrow> number \<Rightarrow> frame" where
  "snapLoop s draggedNote allNotes currentX currentY =
     fold (noteStep draggedNote (draggedBounds_of draggedNote currentX currentY)) allNotes
       \<lparr>this = s\<lparr>guides := []\<rparr>, snapX = currentX, snapY = currentY,
        snappedX = False, snappedY = False\<rparr>"

text \<open>
  \<open>calculateSnap\<close> returns its result together with the system as the call leaves it.
  The \<open>guides\<close> of the result is the array \<open>this.guides\<close> holds on return; later calls
  assign a new array to \<open>this.guides\<close> and never push to this one.
\<close>

definition calculateSnap ::
  "AlignmentSystem \<Rightarrow> HTMLDivElement \<Rightarrow> HTMLDivElement list \<Rightarrow> number \<Rightarrow> number \<Rightarrow>
   SnapResult \<times> AlignmentSystem" where
  "calculateSnap s draggedNote allNotes currentX currentY =
     (if \<not> enabled s then
        (\<lparr>snapped = False, deltaX = Fin 0, deltaY = Fin 0, guides_r = []\<rparr>, s)
      else
        let f = snapLoop s draggedNote allNotes currentX currentY;
            result = \<lparr>snapped = snappedX f \<or> snappedY f,
                      deltaX = snapX f - currentX,
                      deltaY = snapY f - currentY,
                      guides_r = guides (this f)\<rparr>
        in (result, if snapped result then renderGuides (this f) else this f))"

section \<open>The scan as the specification words it\<close>

text \<open>
  The five checks of one axis in their fixed order. On the x-axis (guide type
  \<open>vertical\<close>) start and end are the left and the right edge, on the y-axis (guide type
  \<open>horizontal\<close>) the top and the bottom edge: \<open>StartToStart\<close> is left-to-left or
  top-to-top, \<open>EndToEnd\<close> right-to-right or bottom-to-bottom, \<open>StartToEnd\<close> the dragged
  box's left (top) against the neighbour's right (bottom), \<open>EndToStart\<close> the dragged
  box's right (bottom) against the neighbour's left (top).
\<close>

datatype check = StartToStart | EndToEnd | StartToEnd | EndToStart | CenterToCenter

definition check_order :: "check list" where
  "check_order = [StartToStart, EndToEnd, StartToEnd, EndToStart, CenterToCenter]"

fun dragged_coord :: "guide_type \<Rightarrow> check \<Rightarrow> NoteBounds \<Rightarrow> number" where
  "dragged_coord vertical StartToStart d = left d"
| "dragged_coord vertical EndToEnd d = right d"
| "dragged_coord vertical StartToEnd d = left d"
| "dragged_coord vertical EndToStart d = right d"
| "dragged_coord vertical CenterToCenter d = centerX d"
| "dragged_coord horizontal StartToStart d = top_nb d"
| "dragged_coord horizontal EndToEnd d = bottom d"
| "dragged_coord horizontal StartToEnd d = top_nb d"
| "dragged_coord horizontal EndToStart d = bottom d"
| "dragged_coord horizontal CenterToCenter d = centerY d"

fun neighbor_coord :: "guide_type \<Rightarrow> check \<Rightarrow> NoteBounds \<Rightarrow> number" where
  "neighbor_coord vertical StartToStart t = left t"
| "neighbor_coord vertical EndToEnd t = right t"
| "neighbor_coord vertical StartToEnd t = right t"
| "neighbor_coord vertical EndToStart t = left t"
| "neighbor_coord vertical CenterToCenter t = centerX t"
| "neighbor_coord horizontal StartToStart t = top_nb t"
| "neighbor_coord horizontal EndToEnd t = bottom t"
| "neighbor_coord horizontal StartToEnd t = bottom t"
| "neighbor_coord horizontal EndToStart t = top_nb t"
| "neighbor_coord horizontal CenterToCenter t = centerY t"

text \<open>A check is a match when the absolute difference is at most the threshold.\<close>

definition matches :: "number \<Rightarrow> guide_type \<Rightarrow> NoteBounds \<Rightarrow> NoteBounds \<Rightarrow> check \<Rightarrow> bool" where
  "matches thr ax d t k = (\<bar>dragged_coord ax k d - neighbor_coord ax k t\<bar> \<le> thr)"

definition first_check :: "number \<Rightarrow> guide_type \<Rightarrow> NoteBounds \<Rightarrow> NoteBounds \<Rightarrow> check option" where
  "first_check thr ax d t = find (matches thr ax d t) check_order"

text \<open>The first candidate, in the supplied order, that has a matching check, with that check.\<close>

fun first_match ::
  "number \<Rightarrow> guide_type \<Rightarrow> NoteBounds \<Rightarrow> HTMLDivElement list \<Rightarrow> (HTMLDivElement \<times> check) option" where
  "first_match thr ax d [] = None"
| "first_match thr ax d (n # ns) =
     (case first_check thr ax d (targetBounds_of n) of
        Some k \<Rightarrow> Some (n, k)
      | None \<Rightarrow> first_match thr ax d ns)"

text \<open>The candidates of a call: the notes passed in, without the dragged note itself.\<close>

definition candidates :: "HTMLDivElement \<Rightarrow> HTMLDivElement list \<Rightarrow> HTMLDivElement list" where
  "candidates draggedNote allNotes = filter (\<lambda>note. ref note \<noteq> ref draggedNote) allNotes"

text \<open>The guide a match is recorded as, and the guides of one axis in a list.\<close>

definition guide_of :: "guide_type \<Rightarrow> HTMLDivElement \<Rightarrow> check \<Rightarrow> AlignmentGuide" where
  "guide_of ax n k =
     \<lparr>type_g = ax, position = neighbor_coord ax k (targetBounds_of n), strength = Fin 1,
      sourceId = id_el n\<rparr>"

definition guides_on :: "guide_type \<Rightarrow> AlignmentGuide list \<Rightarrow> AlignmentGuide list" where
  "guides_on ax gs = filter (\<lambda>g. type_g g = ax) gs"

text \<open>
  What the branch of a check assigns to \<open>snapX\<close> (to \<open>snapY\<close> on the y-axis): the new
  left (top) of the dragged box.
\<close>

fun snap_to :: "guide_type \<Rightarrow> check \<Rightarrow> NoteBounds \<Rightarrow> NoteBounds \<Rightarrow> number" where
  "snap_to vertical StartToStart d t = left t"
| "snap_to vertical EndToEnd d t = right t - width d"
| "snap_to vertical StartToEnd d t = right t"
| "snap_to vertical EndToStart d t = left t - width d"
| "snap_to vertical CenterToCenter d t = centerX t - half (width d)"
| "snap_to horizontal StartToStart d t = top_nb t"
| "snap_to horizontal EndToEnd d t = bottom t - height d"
| "snap_to horizontal StartToEnd d t = bottom t"
| "snap_to horizontal EndToStart d t = top_nb t - height d"
| "snap_to horizontal CenterToCenter d t = centerY t - half (height d)"

text \<open>
  What \<open>renderGuides\<close> strokes for a guide: a dashed line across the whole canvas. For a
  position that is not finite \<open>moveTo\<close> and \<open>lineTo\<close> do nothing, and the path stroked
  is empty.
\<close>

definition guide_paint :: "HTMLCanvasElement \<Rightarrow> AlignmentGuide \<Rightarrow> paint" where
  "guide_paint cv g =
     Stroke ''rgba(255, 0, 100, 0.8)'' (Fin 1) [Fin 5, Fin 5]
       (if \<not> isFinite (position g) then []
        else [if type_g g = vertical
              then [(position g, Fin 0), (position g, num (canvas_height cv))]
              else [(Fin 0, position g), (num (canvas_width cv), position g)]])"

text \<open>
  The sub-pixel grid: multiples of 1/64 up to \<open>2 ^ 44\<close>, which holds the integers and the
  half-integers of that size. For a requested position on the grid, sizes that fit the
  DOM's 32-bit integers and candidates whose positions are on the grid, every value
  \<open>calculateSnap\<close> computes is a multiple of 1/64 below \<open>2 ^ 46\<close>, so no sum or
  difference of doubles rounds.
\<close>

definition on_grid :: "number \<Rightarrow> bool" where
  "on_grid x =
     (case x of
        Fin q \<Rightarrow> of_int \<lfloor>64 * q\<rfloor> = 64 * q \<and> \<bar>q\<bar> \<le> 2 ^ 44
      | _ \<Rightarrow> False)"

definition grid_size :: "HTMLDivElement \<Rightarrow> bool" where
  "grid_size n = (\<bar>offsetWidth n\<bar> \<le> 2 ^ 31 \<and> \<bar>offsetHeight n\<bar> \<le> 2 ^ 31)"

definition grid_note :: "HTMLDivElement \<Rightarrow> bool" where
  "grid_note n =
     (grid_size n \<and> on_grid (left (targetBounds_of n)) \<and> on_grid (top_nb (targetBounds_of n)))"

text \<open>The result of a call that changes nothing.\<close>

definition no_op :: SnapResult where
  "no_op = \<lparr>snapped = False, deltaX = Fin 0, deltaY = Fin 0, guides_r = []\<rparr>"

section \<open>Concrete notes\<close>

text \<open>
  A system as the constructor leaves it in a window of 800 by 600 pixels, and the notes
  of the scenarios below. \<open>dragged\<close> is 80 by 40 pixels; its own style holds the
  position it had before the drag.
\<close>

definition example_system :: AlignmentSystem where
  "example_system =
     resizeCanvas \<lparr>innerWidth = 800, innerHeight = 600\<rparr>
       (initialised \<lparr>canvas_width = 300, canvas_height = 150\<rparr> fresh_ctx)"

definition dragged :: HTMLDivElement where
  "dragged = \<lparr>ref = 0, id_el = ''note-doc-0'', style_left = js ''20px'', style_top = js ''20px'',
     offsetWidth = 80, offsetHeight = 40\<rparr>"

definition neighbor :: HTMLDivElement where
  "neighbor = \<lparr>ref = 1, id_el = ''note-doc-1'', style_left = js ''100px'', style_top = js ''50px'',
     offsetWidth = 120, offsetHeight = 40\<rparr>"

definition closer :: HTMLDivElement where
  "closer = \<lparr>ref = 2, id_el = ''note-doc-2'', style_left = js ''103px'', style_top = js ''400px'',
     offsetWidth = 120, offsetHeight = 40\<rparr>"

definition beside :: HTMLDivElement where
  "beside = \<lparr>ref = 3, id_el = ''note-doc-3'', style_left = js ''400px'', style_top = js ''202px'',
     offsetWidth = 120, offsetHeight = 40\<rparr>"

definition wider :: HTMLDivElement where
  "wider = \<lparr>ref = 4, id_el = ''note-doc-4'', style_left = js ''100px'', style_top = js ''50px'',
     offsetWidth = 85, offsetHeight = 40\<rparr>"

text \<open>A note whose \<open>style.left\<close> is a run of 309 digits: \<open>parseInt\<close> overflows.\<close>

definition overflowing :: HTMLDivElement where
  "overflowing = \<lparr>ref = 5, id_el = ''note-doc-5'',
     style_left = js (replicate 309 CHR ''9'' @ ''px''), style_top = js ''200px'',
     offsetWidth = 120, offsetHeight = 40\<rparr>"

section \<open>The loop of calculateSnap\<close>

lemma first_check_unfold:
  "first_check thr ax d t =
     (if matches thr ax d t StartToStart then Some StartToStart
      else if matches thr ax d t EndToEnd then Some EndToEnd
      else if matches thr ax d t StartToEnd then Some StartToEnd
      else if matches thr ax d t EndToStart then Some EndToStart
      else if matches thr ax d t CenterToCenter then Some CenterToCenter
      else None)"
  by (simp add: first_check_def check_order_def)

lemma checkVertical_eq:
  "checkVertical d t note f =
     (if snappedX f then f
      else case first_check (snapThreshold (this f)) vertical d t of
        None \<Rightarrow> f
      | Some k \<Rightarrow>
          push_guide \<lparr>type_g = vertical, position = neighbor_coord vertical k t,
              strength = Fin 1, sourceId = id_el note\<rparr>
            (f\<lparr>snapX := snap_to vertical k d t, snappedX := True\<rparr>))"
  by (simp add: checkVertical_def first_check_unfold matches_def)

lemma checkHorizontal_eq:
  "checkHorizontal d t note f =
     (if snappedY f then f
      else case first_check (snapThreshold (this f)) horizontal d t of
        None \<Rightarrow> f
      | Some k \<Rightarrow>
          push_guide \<lparr>type_g = horizontal, position = neighbor_coord horizontal k t,
              strength = Fin 1, sourceId = id_el note\<rparr>
            (f\<lparr>snapY := snap_to horizontal k d t, snappedY := True\<rparr>))"
  by (simp add: checkHorizontal_def first_check_unfold matches_def)

lemmas noteStep_unfold =
  noteStep_def checkVertical_eq checkHorizontal_eq push_guide_def Let_def

lemma noteStep_this:
  "this (noteStep dn d n f) = (this f)\<lparr>guides := guides (this (noteStep dn d n f))\<rparr>"
  by (simp add: noteStep_unfold split: option.splits)

lemma noteStep_threshold:
  "snapThreshold (this (noteStep dn d n f)) = snapThreshold (this f)"
  by (simp add: noteStep_unfold split: option.splits)

lemma noteStep_vertical:
  "snappedX (noteStep dn d n f) =
     (snappedX f \<or> first_match (snapThreshold (this f)) vertical d (candidates dn [n]) \<noteq> None)"
  "snapX (noteStep dn d n f) =
     (if snappedX f then snapX f
      else case first_match (snapThreshold (this f)) vertical d (candidates dn [n]) of
        None \<Rightarrow> snapX f
      | Some (m, k) \<Rightarrow> snap_to vertical k d (targetBounds_of m))"
  "guides_on vertical (guides (this (noteStep dn d n f))) =
     guides_on vertical (guides (this f)) @
     (if snappedX f then []
      else case first_match (snapThreshold (this f)) vertical d (candidates dn [n]) of
        None \<Rightarrow> []
      | Some (m, k) \<Rightarrow> [guide_of vertical m k])"
  by (simp_all add: noteStep_unfold candidates_def guides_on_def guide_of_def
      split: option.splits)

lemma noteStep_horizontal:
  "snappedY (noteStep dn d n f) =
     (snappedY f \<or> first_match (snapThreshold (this f)) horizontal d (candidates dn [n]) \<noteq> None)"
  "snapY (noteStep dn d n f) =
     (if snappedY f then snapY f
      else case first_match (snapThreshold (this f)) horizontal d (candidates dn [n]) of
        None \<Rightarrow> snapY f
      | Some (m, k) \<Rightarrow> snap_to horizontal k d (targetBounds_of m))"
  "guides_on horizontal (guides (this (noteStep dn d n f))) =
     guides_on horizontal (guides (this f)) @
     (if snappedY f then []
      else case first_match (snapThreshold (this f)) horizontal d (candidates dn [n]) of
        None \<Rightarrow> []
      | Some (m, k) \<Rightarrow> [guide_of horizontal m k])"
  by (simp_all add: noteStep_unfold candidates_def guides_on_def guide_of_def
      split: option.splits)

lemma first_match_append:
  "first_match thr ax d (xs @ ys) =
     (case first_match thr ax d xs of None \<Rightarrow> first_match thr ax d ys | Some r \<Rightarrow> Some r)"
  by (induction xs) (simp_all split: option.splits)

lemma candidates_Cons: "candidates dn (n # rest) = candidates dn [n] @ candidates dn rest"
  by (simp add: candidates_def)

lemma loop_threshold:
  "snapThreshold (this (fold (noteStep dn d) allNotes f)) = snapThreshold (this f)"
  by (induction allNotes arbitrary: f) (simp_all add: noteStep_threshold)

lemma loop_this:
  "this (fold (noteStep dn d) allNotes f) =
     (this f)\<lparr>guides := guides (this (fold (noteStep dn d) allNotes f))\<rparr>"
proof (induction allNotes arbitrary: f)
  case Nil
  show ?case by simp
next
  case (Cons n rest)
  have "this (fold (noteStep dn d) rest (noteStep dn d n f)) =
        (this (noteStep dn d n f))\<lparr>guides := guides (this (fold (noteStep dn d) rest (noteStep dn d n f)))\<rparr>"
    by (rule Cons.IH)
  also have "\<dots> = (this f)\<lparr>guides := guides (this (fold (noteStep dn d) rest (noteStep dn d n f)))\<rparr>"
    by (subst noteStep_this) simp
  finally show ?case by simp
qed

lemma loop_vertical:
  "snappedX (fold (noteStep dn d) allNotes f) =
     (snappedX f \<or> first_match (snapThreshold (this f)) vertical d (candidates dn allNotes) \<noteq> None)
   \<and> snapX (fold (noteStep dn d) allNotes f) =
     (if snappedX f then snapX f
      else case first_match (snapThreshold (this f)) vertical d (candidates dn allNotes) of
        None \<Rightarrow> snapX f
      | Some (m, k) \<Rightarrow> snap_to vertical k d (targetBounds_of m))
   \<and> guides_on vertical (guides (this (fold (noteStep dn d) allNotes f))) =
     guides_on vertical (guides (this f)) @
     (if snappedX f then []
      else case first_match (snapThreshold (this f)) vertical d (candidates dn allNotes) of
        None \<Rightarrow> []
      | Some (m, k) \<Rightarrow> [guide_of vertical m k])"
proof (induction allNotes arbitrary: f)
  case Nil
  show ?case by (simp add: candidates_def)
next
  case (Cons n rest)
  show ?case
    unfolding fold_Cons comp_apply candidates_Cons [of dn n rest] first_match_append
    by (simp add: Cons.IH noteStep_vertical noteStep_threshold split: option.splits)
qed

lemma loop_horizontal:
  "snappedY (fold (noteStep dn d) allNotes f) =
     (snappedY f \<or> first_match (snapThreshold (this f)) horizontal d (candidates dn allNotes) \<noteq> None)
   \<and> snapY (fold (noteStep dn d) allNotes f) =
     (if snappedY f then snapY f
      else case first_match (snapThreshold (this f)) horizontal d (candidates dn allNotes) of
        None \<Rightarrow> snapY f
      | Some (m, k) \<Rightarrow> snap_to horizontal k d (targetBounds_of m))
   \<and> guides_on horizontal (guides (this (fold (noteStep dn d) allNotes f))) =
     guides_on horizontal (guides (this f)) @
     (if snappedY f then []
      else case first_match (snapThreshold (this f)) horizontal d (candidates dn allNotes) of
        None \<Rightarrow> []
      | Some (m, k) \<Rightarrow> [guide_of horizontal m k])"
proof (induction allNotes arbitrary: f)
  case Nil
  show ?case by (simp add: candidates_def)
next
  case (Cons n rest)
  show ?case
    unfolding fold_Cons comp_apply candidates_Cons [of dn n rest] first_match_append
    by (simp add: Cons.IH noteStep_horizontal noteStep_threshold split: option.splits)
qed

text \<open>The final frame of a call, one fact per variable.\<close>

lemma snapLoop_this:
  "this (snapLoop s dn allNotes x y) = s\<lparr>guides := guides (this (snapLoop s dn allNotes x y))\<rparr>"
  unfolding snapLoop_def by (subst loop_this) simp

lemma snapLoop_snappedX:
  "snappedX (snapLoop s dn allNotes x y) =
     (first_match (snapThreshold s) vertical (draggedBounds_of dn x y) (candidates dn allNotes) \<noteq> None)"
  unfolding snapLoop_def by (simp add: loop_vertical)

lemma snapLoop_snappedY:
  "snappedY (snapLoop s dn allNotes x y) =
     (first_match (snapThreshold s) horizontal (draggedBounds_of dn x y) (candidates dn allNotes) \<noteq> None)"
  unfolding snapLoop_def by (simp add: loop_horizontal)

lemma snapLoop_snapX:
  "snapX (snapLoop s dn allNotes x y) =
     (case first_match (snapThreshold s) vertical (draggedBounds_of dn x y) (candidates dn allNotes) of
        None \<Rightarrow> x
      | Some (m, k) \<Rightarrow> snap_to vertical k (draggedBounds_of dn x y) (targetBounds_of m))"
  unfolding snapLoop_def by (simp add: loop_vertical split: option.splits)

lemma snapLoop_snapY:
  "snapY (snapLoop s dn allNotes x y) =
     (case first_match (snapThreshold s) horizontal (draggedBounds_of dn x y) (candidates dn allNotes) of
        None \<Rightarrow> y
      | Some (m, k) \<Rightarrow> snap_to horizontal k (draggedBounds_of dn x y) (targetBounds_of m))"
  unfolding snapLoop_def by (simp add: loop_horizontal split: option.splits)

lemma guides_on_Nil: "guides_on ax [] = []"
  by (simp add: guides_on_def)

lemma guides_on_cases:
  "guides_on ax (guides (this (snapLoop s dn allNotes x y))) =
     (case first_match (snapThreshold s) ax (draggedBounds_of dn x y) (candidates dn allNotes) of
        None \<Rightarrow> []
      | Some (m, k) \<Rightarrow> [guide_of ax m k])"
proof (cases ax)
  case vertical
  then show ?thesis unfolding snapLoop_def by (simp add: loop_vertical guides_on_Nil split: option.splits)
next
  case horizontal
  then show ?thesis unfolding snapLoop_def by (simp add: loop_horizontal guides_on_Nil split: option.splits)
qed

lemma result_guides:
  "enabled s \<Longrightarrow>
   guides_r (fst (calculateSnap s dn allNotes x y)) = guides (this (snapLoop s dn allNotes x y))"
  by (simp add: calculateSnap_def Let_def)

text \<open>
  The box of a neighbour never holds \<open>NaN\<close>: on each axis its three coordinates are all
  finite, or all the same infinity, as its parsed position is.
\<close>

lemma or_zero_cases:
  "(\<exists>q. or_zero v = Fin q) \<or> or_zero v = PInf \<or> or_zero v = NInf"
  by (cases v) (simp_all add: or_zero_def)

lemma target_vertical_cases:
  "(\<exists>l w. left (targetBounds_of n) = Fin l \<and> right (targetBounds_of n) = Fin (l + w) \<and>
          centerX (targetBounds_of n) = Fin (l + w / 2)) \<or>
   (left (targetBounds_of n) = PInf \<and> right (targetBounds_of n) = PInf \<and>
      centerX (targetBounds_of n) = PInf) \<or>
   (left (targetBounds_of n) = NInf \<and> right (targetBounds_of n) = NInf \<and>
      centerX (targetBounds_of n) = NInf)"
  using or_zero_cases [of "parseInt (style_left n)"]
  by (auto simp: targetBounds_of_def num_def)

lemma target_horizontal_cases:
  "(\<exists>t h. top_nb (targetBounds_of n) = Fin t \<and> bottom (targetBounds_of n) = Fin (t + h) \<and>
          centerY (targetBounds_of n) = Fin (t + h / 2)) \<or>
   (top_nb (targetBounds_of n) = PInf \<and> bottom (targetBounds_of n) = PInf \<and>
      centerY (targetBounds_of n) = PInf) \<or>
   (top_nb (targetBounds_of n) = NInf \<and> bottom (targetBounds_of n) = NInf \<and>
      centerY (targetBounds_of n) = NInf)"
  using or_zero_cases [of "parseInt (style_top n)"]
  by (auto simp: targetBounds_of_def num_def)

text \<open>Each branch assigns the position that differs from the requested one by the correction.\<close>

lemma snap_to_delta_vertical:
  "snap_to vertical k (draggedBounds_of dn x y) (targetBounds_of n) - x =
   neighbor_coord vertical k (targetBounds_of n) - dragged_coord vertical k (draggedBounds_of dn x y)"
  using target_vertical_cases [of n]
  by (elim disjE exE conjE; cases k; cases x)
     (simp_all add: draggedBounds_of_def minus_number_def num_def)

lemma snap_to_delta_horizontal:
  "snap_to horizontal k (draggedBounds_of dn x y) (targetBounds_of n) - y =
   neighbor_coord horizontal k (targetBounds_of n) - dragged_coord horizontal k (draggedBounds_of dn x y)"
  using target_horizontal_cases [of n]
  by (elim disjE exE conjE; cases k; cases y)
     (simp_all add: draggedBounds_of_def minus_number_def num_def)

lemma first_match_Some:
  "first_match thr ax d xs = Some (n, k) \<Longrightarrow>
   n \<in> set xs \<and> first_check thr ax d (targetBounds_of n) = Some k"
  by (induction xs) (auto split: option.splits)

lemma first_match_None:
  "first_match thr ax d xs = None \<longleftrightarrow> (\<forall>n\<in>set xs. first_check thr ax d (targetBounds_of n) = None)"
  by (induction xs) (auto split: option.splits)

lemma fold_candidates:
  "fold (noteStep dn d) (candidates dn allNotes) f = fold (noteStep dn d) allNotes f"
  by (induction allNotes arbitrary: f) (simp_all add: candidates_def noteStep_def)

lemma snapLoop_candidates:
  "snapLoop s dn (candidates dn allNotes) x y = snapLoop s dn allNotes x y"
  by (simp add: snapLoop_def fold_candidates)

lemma guide_in_axis: "g \<in> set gs \<Longrightarrow> g \<in> set (guides_on (type_g g) gs)"
  by (simp add: guides_on_def)

lemma loop_guide_source:
  assumes "g \<in> set (guides (this (snapLoop s dn allNotes x y)))"
  shows "\<exists>n\<in>set allNotes. ref n \<noteq> ref dn \<and> sourceId g = id_el n"
proof -
  let ?fm = "first_match (snapThreshold s) (type_g g) (draggedBounds_of dn x y) (candidates dn allNotes)"
  from assms have "g \<in> set (guides_on (type_g g) (guides (this (snapLoop s dn allNotes x y))))"
    by (rule guide_in_axis)
  then have in_case: "g \<in> set (case ?fm of None \<Rightarrow> [] | Some (m, k) \<Rightarrow> [guide_of (type_g g) m k])"
    by (simp only: guides_on_cases)
  then obtain n k where fm: "?fm = Some (n, k)" and g: "g = guide_of (type_g g) n k"
    by (cases ?fm) auto
  from fm have "n \<in> set (candidates dn allNotes)" by (simp add: first_match_Some)
  then have "n \<in> set allNotes" "ref n \<noteq> ref dn" by (simp_all add: candidates_def)
  moreover from g have "sourceId g = id_el n" by (metis guide_of_def AlignmentGuide.select_convs(4))
  ultimately show ?thesis by blast
qed

section \<open>The dragged note among the notes\<close>

text \<open>
  C10. The caller passes every note of the canvas, the dragged one included. The callback
  returns at once for it, so the call gives the same result and leaves the same system as
  the call on the notes without it, and every guide of the result has the \<open>id\<close> of a
  note that is not the dragged one.
\<close>

theorem calculateSnap_skips_dragged:
  "calculateSnap s dn allNotes x y = calculateSnap s dn (candidates dn allNotes) x y \<and>
   (\<forall>g\<in>set (guides_r (fst (calculateSnap s dn allNotes x y))).
      \<exists>n\<in>set allNotes. ref n \<noteq> ref dn \<and> sourceId g = id_el n)"
proof
  show "calculateSnap s dn allNotes x y = calculateSnap s dn (candidates dn allNotes) x y"
    by (simp add: calculateSnap_def snapLoop_candidates)
  show "\<forall>g\<in>set (guides_r (fst (calculateSnap s dn allNotes x y))).
      \<exists>n\<in>set allNotes. ref n \<noteq> ref dn \<and> sourceId g = id_el n"
  proof (cases "enabled s")
    case True
    then show ?thesis by (simp add: result_guides loop_guide_source)
  next
    case False
    then show ?thesis by (simp add: calculateSnap_def)
  qed
qed

text \<open>With the dragged note first in the list, the only guide is the neighbour's.\<close>

theorem calculateSnap_skips_dragged_witness:
  "calculateSnap example_system dragged [dragged, neighbor] (Fin 103) (Fin 200) =
     calculateSnap example_system dragged [neighbor] (Fin 103) (Fin 200) \<and>
   map sourceId (guides_r (fst (calculateSnap example_system dragged [dragged, neighbor] (Fin 103) (Fin 200))))
     = [id_el neighbor] \<and>
   ref neighbor \<noteq> ref dragged"
proof -
  have c: "candidates dragged [dragged, neighbor] = [neighbor]"
    by (simp add: candidates_def dragged_def neighbor_def)
  have e: "map sourceId (guides_r (fst (calculateSnap example_system dragged [dragged, neighbor] (Fin 103) (Fin 200))))
     = [id_el neighbor]"
    by code_simp
  have r: "ref neighbor \<noteq> ref dragged"
    by (simp add: dragged_def neighbor_def)
  from calculateSnap_skips_dragged [of example_system dragged "[dragged, neighbor]" "Fin 103" "Fin 200"]
  have "calculateSnap example_system dragged [dragged, neighbor] (Fin 103) (Fin 200) =
     calculateSnap example_system dragged (candidates dragged [dragged, neighbor]) (Fin 103) (Fin 200)"
    by (rule conjunct1)
  with c e r show ?thesis by simp
qed

section \<open>clearGuides\<close>

lemma clearRect_whole:
  "clearRect (Fin 0) (Fin 0) (num (canvas_width cv)) (num (canvas_height cv)) cv c = c\<lparr>bitmap := []\<rparr>"
  by (simp add: clearRect_def num_def)

text \<open>
  C9. \<open>clearGuides\<close> is idempotent: after one call the system holds no guide and the
  canvas is blank, and a second call leaves exactly that system.
\<close>

theorem clearGuides_idempotent:
  "clearGuides (clearGuides s) = clearGuides s \<and>
   guides (clearGuides s) = [] \<and> bitmap (ctx (clearGuides s)) = []"
  by (simp add: clearGuides_def clearRect_whole)

section \<open>First match wins\<close>

text \<open>
  C1. With snapping on, the guides of an axis in the result are those of the scan the
  specification describes: the candidates in the supplied order, for each the five checks
  in their fixed order, and the first check within the threshold decides. No candidate
  after the first matching one changes the guide, whatever its distance. The locals of
  the call are decided by the same first match: \<open>snappedX\<close> tells whether there is one,
  and \<open>snapX\<close> is what its branch assigns (likewise on the y-axis).
\<close>

theorem calculateSnap_first_match_wins:
  assumes "enabled s"
  shows "guides_on ax (guides_r (fst (calculateSnap s dn allNotes x y))) =
     (case first_match (snapThreshold s) ax (draggedBounds_of dn x y) (candidates dn allNotes) of
        None \<Rightarrow> []
      | Some (n, k) \<Rightarrow> [guide_of ax n k]) \<and>
   (\<forall>before n after k.
      candidates dn allNotes = before @ n # after \<and>
      first_match (snapThreshold s) ax (draggedBounds_of dn x y) before = None \<and>
      first_check (snapThreshold s) ax (draggedBounds_of dn x y) (targetBounds_of n) = Some k \<longrightarrow>
      guides_on ax (guides_r (fst (calculateSnap s dn allNotes x y))) = [guide_of ax n k]) \<and>
   snappedX (snapLoop s dn allNotes x y) =
     (first_match (snapThreshold s) vertical (draggedBounds_of dn x y) (candidates dn allNotes) \<noteq> None) \<and>
   snapX (snapLoop s dn allNotes x y) =
     (case first_match (snapThreshold s) vertical (draggedBounds_of dn x y) (candidates dn allNotes) of
        None \<Rightarrow> x
      | Some (n, k) \<Rightarrow> snap_to vertical k (draggedBounds_of dn x y) (targetBounds_of n)) \<and>
   snappedY (snapLoop s dn allNotes x y) =
     (first_match (snapThreshold s) horizontal (draggedBounds_of dn x y) (candidates dn allNotes) \<noteq> None) \<and>
   snapY (snapLoop s dn allNotes x y) =
     (case first_match (snapThreshold s) horizontal (draggedBounds_of dn x y) (candidates dn allNotes) of
        None \<Rightarrow> y
      | Some (n, k) \<Rightarrow> snap_to horizontal k (draggedBounds_of dn x y) (targetBounds_of n))"
proof -
  have eq: "guides_on ax (guides_r (fst (calculateSnap s dn allNotes x y))) =
     (case first_match (snapThreshold s) ax (draggedBounds_of dn x y) (candidates dn allNotes) of
        None \<Rightarrow> []
      | Some (n, k) \<Rightarrow> [guide_of ax n k])"
    using assms by (simp add: result_guides guides_on_cases)
  show ?thesis
  proof (intro conjI allI impI)
    show "guides_on ax (guides_r (fst (calculateSnap s dn allNotes x y))) =
     (case first_match (snapThreshold s) ax (draggedBounds_of dn x y) (candidates dn allNotes) of
        None \<Rightarrow> []
      | Some (n, k) \<Rightarrow> [guide_of ax n k])"
      by (rule eq)
  next
    fix before n after k
    assume h: "candidates dn allNotes = before @ n # after \<and>
      first_match (snapThreshold s) ax (draggedBounds_of dn x y) before = None \<and>
      first_check (snapThreshold s) ax (draggedBounds_of dn x y) (targetBounds_of n) = Some k"
    then have "first_match (snapThreshold s) ax (draggedBounds_of dn x y) (candidates dn allNotes)
        = Some (n, k)"
      by (simp add: first_match_append)
    with eq show "guides_on ax (guides_r (fst (calculateSnap s dn allNotes x y))) = [guide_of ax n k]"
      by simp
  next
    show "snappedX (snapLoop s dn allNotes x y) =
     (first_match (snapThreshold s) vertical (draggedBounds_of dn x y) (candidates dn allNotes) \<noteq> None)"
      by (rule snapLoop_snappedX)
  next
    show "snapX (snapLoop s dn allNotes x y) =
     (case first_match (snapThreshold s) vertical (draggedBounds_of dn x y) (candidates dn allNotes) of
        None \<Rightarrow> x
      | Some (n, k) \<Rightarrow> snap_to vertical k (draggedBounds_of dn x y) (targetBounds_of n))"
      by (rule snapLoop_snapX)
  next
    show "snappedY (snapLoop s dn allNotes x y) =
     (first_match (snapThreshold s) horizontal (draggedBounds_of dn x y) (candidates dn allNotes) \<noteq> None)"
      by (rule snapLoop_snappedY)
  next
    show "snapY (snapLoop s dn allNotes x y) =
     (case first_match (snapThreshold s) horizontal (draggedBounds_of dn x y) (candidates dn allNotes) of
        None \<Rightarrow> y
      | Some (n, k) \<Rightarrow> snap_to horizontal k (draggedBounds_of dn x y) (targetBounds_of n))"
      by (rule snapLoop_snapY)
  qed
qed

lemma example_enabled: "enabled example_system"
  by (simp add: example_system_def resizeCanvas_def initialised_def)

lemma example_threshold: "snapThreshold example_system = Fin 4"
  by (simp add: example_system_def resizeCanvas_def initialised_def)

text \<open>
  The dragged left edge is at 103. \<open>neighbor\<close> (left edge 100) is 3 pixels away and
  \<open>closer\<close> (left edge 103) is 0 pixels away; the guide is that of whichever comes first.
\<close>

theorem calculateSnap_first_match_wins_witness:
  "enabled example_system \<and>
   guides_on vertical (guides_r (fst (calculateSnap example_system dragged [neighbor, closer] (Fin 103) (Fin 200))))
     = [guide_of vertical neighbor StartToStart] \<and>
   guides_on vertical (guides_r (fst (calculateSnap example_system dragged [closer, neighbor] (Fin 103) (Fin 200))))
     = [guide_of vertical closer StartToStart] \<and>
   left (targetBounds_of neighbor) = Fin 100 \<and> left (targetBounds_of closer) = Fin 103"
proof -
  have m1: "first_match (snapThreshold example_system) vertical (draggedBounds_of dragged (Fin 103) (Fin 200))
      (candidates dragged [neighbor, closer]) = Some (neighbor, StartToStart)"
    by code_simp
  have m2: "first_match (snapThreshold example_system) vertical (draggedBounds_of dragged (Fin 103) (Fin 200))
      (candidates dragged [closer, neighbor]) = Some (closer, StartToStart)"
    by code_simp
  have l: "left (targetBounds_of neighbor) = Fin 100" "left (targetBounds_of closer) = Fin 103"
    by code_simp+
  note w = calculateSnap_first_match_wins [OF example_enabled, of vertical dragged _ "Fin 103" "Fin 200", THEN conjunct1]
  from w [of "[neighbor, closer]"] w [of "[closer, neighbor]"] m1 m2 l example_enabled
  show ?thesis by simp
qed

lemma guides_on_split:
  "length gs = length (guides_on vertical gs) + length (guides_on horizontal gs)"
proof (induction gs)
  case Nil
  show ?case by (simp add: guides_on_def)
next
  case (Cons g gs)
  then show ?case by (cases "type_g g") (simp_all add: guides_on_def)
qed

lemma guides_only_vertical:
  "guides_on horizontal gs = [] \<Longrightarrow> gs = guides_on vertical gs"
proof (induction gs)
  case Nil
  show ?case by (simp add: guides_on_def)
next
  case (Cons g gs)
  then show ?case by (cases "type_g g") (simp_all add: guides_on_def split: if_splits)
qed

lemma guides_only_horizontal:
  "guides_on vertical gs = [] \<Longrightarrow> gs = guides_on horizontal gs"
proof (induction gs)
  case Nil
  show ?case by (simp add: guides_on_def)
next
  case (Cons g gs)
  then show ?case by (cases "type_g g") (simp_all add: guides_on_def split: if_splits)
qed

lemma result_fields:
  assumes "enabled s"
  shows "snapped (fst (calculateSnap s dn allNotes x y)) =
           (snappedX (snapLoop s dn allNotes x y) \<or> snappedY (snapLoop s dn allNotes x y))"
    and "deltaX (fst (calculateSnap s dn allNotes x y)) = snapX (snapLoop s dn allNotes x y) - x"
    and "deltaY (fst (calculateSnap s dn allNotes x y)) = snapY (snapLoop s dn allNotes x y) - y"
  using assms by (simp_all add: calculateSnap_def Let_def)

section \<open>The end-to-end scenario\<close>

text \<open>
  C3. Snapping on, threshold 4, one neighbour with the box left 100, top 50, right 220,
  bottom 90, and the dragged box at left 103, top 200, right 183, bottom 240: the result
  is a snap with \<open>deltaX = -3\<close> and \<open>deltaY = 0\<close> and exactly one guide, vertical, at
  position 100, with the neighbour's id. The match on the x-axis is left-to-left, and
  there is none on the y-axis.
\<close>

theorem scenario_left_to_left:
  assumes "enabled s" and "snapThreshold s = Fin 4"
  shows "fst (calculateSnap s dragged [neighbor] (Fin 103) (Fin 200)) =
      \<lparr>snapped = True, deltaX = Fin (- 3), deltaY = Fin 0,
       guides_r = [\<lparr>type_g = vertical, position = Fin 100, strength = Fin 1,
                    sourceId = id_el neighbor\<rparr>]\<rparr> \<and>
    first_match (Fin 4) vertical (draggedBounds_of dragged (Fin 103) (Fin 200)) [neighbor] =
      Some (neighbor, StartToStart) \<and>
    first_match (Fin 4) horizontal (draggedBounds_of dragged (Fin 103) (Fin 200)) [neighbor] = None"
proof -
  let ?d = "draggedBounds_of dragged (Fin 103) (Fin 200)"
  let ?r = "fst (calculateSnap s dragged [neighbor] (Fin 103) (Fin 200))"
  have c: "candidates dragged [neighbor] = [neighbor]"
    by (simp add: candidates_def dragged_def neighbor_def)
  have v: "first_match (Fin 4) vertical ?d [neighbor] = Some (neighbor, StartToStart)"
    by code_simp
  have h: "first_match (Fin 4) horizontal ?d [neighbor] = None"
    by code_simp
  have g: "guide_of vertical neighbor StartToStart =
      \<lparr>type_g = vertical, position = Fin 100, strength = Fin 1, sourceId = id_el neighbor\<rparr>"
    by code_simp
  have sx: "snap_to vertical StartToStart ?d (targetBounds_of neighbor) = Fin 100"
    by code_simp
  have gv: "guides_on vertical (guides_r ?r) = [guide_of vertical neighbor StartToStart]"
    using assms by (simp add: result_guides guides_on_cases c v del: first_match.simps)
  have gh: "guides_on horizontal (guides_r ?r) = []"
    using assms by (simp add: result_guides guides_on_cases c h del: first_match.simps)
  from gh gv have gs: "guides_r ?r = [guide_of vertical neighbor StartToStart]"
    using guides_only_vertical by fastforce
  have sn: "snapped ?r = True"
    using assms by (simp add: result_fields snapLoop_snappedX c v del: first_match.simps)
  have dx: "deltaX ?r = Fin (- 3)"
    using assms by (simp add: result_fields snapLoop_snapX c v sx minus_number_def
        del: first_match.simps snap_to.simps)
  have dy: "deltaY ?r = Fin 0"
    using assms by (simp add: result_fields snapLoop_snapY c h minus_number_def del: first_match.simps)
  have "?r = \<lparr>snapped = True, deltaX = Fin (- 3), deltaY = Fin 0,
       guides_r = [\<lparr>type_g = vertical, position = Fin 100, strength = Fin 1,
                    sourceId = id_el neighbor\<rparr>]\<rparr>"
    by (rule SnapResult.equality) (simp_all add: sn dx dy gs g)
  with v h show ?thesis by simp
qed

text \<open>The system the constructor yields, and the two boxes of the scenario.\<close>

theorem scenario_left_to_left_witness:
  "enabled example_system \<and> snapThreshold example_system = Fin 4 \<and>
   new_AlignmentSystem \<lparr>innerWidth = 800, innerHeight = 600\<rparr>
     \<lparr>canvas_width = 300, canvas_height = 150\<rparr> (Some fresh_ctx) = Inr example_system \<and>
   left (targetBounds_of neighbor) = Fin 100 \<and> top_nb (targetBounds_of neighbor) = Fin 50 \<and>
   right (targetBounds_of neighbor) = Fin 220 \<and> bottom (targetBounds_of neighbor) = Fin 90 \<and>
   left (draggedBounds_of dragged (Fin 103) (Fin 200)) = Fin 103 \<and>
   top_nb (draggedBounds_of dragged (Fin 103) (Fin 200)) = Fin 200 \<and>
   right (draggedBounds_of dragged (Fin 103) (Fin 200)) = Fin 183 \<and>
   bottom (draggedBounds_of dragged (Fin 103) (Fin 200)) = Fin 240 \<and>
   fst (calculateSnap example_system dragged [neighbor] (Fin 103) (Fin 200)) =
      \<lparr>snapped = True, deltaX = Fin (- 3), deltaY = Fin 0,
       guides_r = [\<lparr>type_g = vertical, position = Fin 100, strength = Fin 1,
                    sourceId = ''note-doc-1''\<rparr>]\<rparr>"
proof -
  have b: "left (targetBounds_of neighbor) = Fin 100" "top_nb (targetBounds_of neighbor) = Fin 50"
    "right (targetBounds_of neighbor) = Fin 220" "bottom (targetBounds_of neighbor) = Fin 90"
    "left (draggedBounds_of dragged (Fin 103) (Fin 200)) = Fin 103"
    "top_nb (draggedBounds_of dragged (Fin 103) (Fin 200)) = Fin 200"
    "right (draggedBounds_of dragged (Fin 103) (Fin 200)) = Fin 183"
    "bottom (draggedBounds_of dragged (Fin 103) (Fin 200)) = Fin 240"
    by code_simp+
  have n: "new_AlignmentSystem \<lparr>innerWidth = 800, innerHeight = 600\<rparr>
     \<lparr>canvas_width = 300, canvas_height = 150\<rparr> (Some fresh_ctx) = Inr example_system"
    by (simp add: new_AlignmentSystem_def example_system_def)
  have i: "id_el neighbor = ''note-doc-1''" by (simp add: neighbor_def)
  from scenario_left_to_left [OF example_enabled example_threshold] b n i
    example_enabled example_threshold
  show ?thesis by simp
qed

lemma guides_on_length:
  "length (guides_on ax (guides (this (snapLoop s dn allNotes x y)))) =
     (if first_match (snapThreshold s) ax (draggedBounds_of dn x y) (candidates dn allNotes) = None
      then 0 else 1)"
  by (simp add: guides_on_cases split: option.splits)

lemma disabled_result:
  "\<not> enabled s \<Longrightarrow> calculateSnap s dn allNotes x y = (no_op, s)"
  by (simp add: calculateSnap_def no_op_def)

section \<open>The flag and the guides of a result\<close>

text \<open>
  C7, as the code has it. A \<open>SnapResult\<close> carries one flag, \<open>snapped\<close>, true when a
  match was found on at least one axis; \<open>snappedX\<close> and \<open>snappedY\<close> are locals of the
  call and are not returned. The axes show in the guides: at most one vertical and at most
  one horizontal guide, exactly one for each axis that matched, so zero, one or two in
  all, and \<open>snapped\<close> holds exactly when there is a guide.
\<close>

theorem result_flag_and_guides:
  "length (guides_on vertical (guides_r (fst (calculateSnap s dn allNotes x y)))) \<le> 1 \<and>
   length (guides_on horizontal (guides_r (fst (calculateSnap s dn allNotes x y)))) \<le> 1 \<and>
   length (guides_r (fst (calculateSnap s dn allNotes x y))) =
     length (guides_on vertical (guides_r (fst (calculateSnap s dn allNotes x y)))) +
     length (guides_on horizontal (guides_r (fst (calculateSnap s dn allNotes x y)))) \<and>
   length (guides_r (fst (calculateSnap s dn allNotes x y))) \<le> 2 \<and>
   snapped (fst (calculateSnap s dn allNotes x y)) =
     (guides_r (fst (calculateSnap s dn allNotes x y)) \<noteq> []) \<and>
   (enabled s \<longrightarrow>
      snapped (fst (calculateSnap s dn allNotes x y)) =
        (snappedX (snapLoop s dn allNotes x y) \<or> snappedY (snapLoop s dn allNotes x y)) \<and>
      length (guides_on vertical (guides_r (fst (calculateSnap s dn allNotes x y)))) =
        (if snappedX (snapLoop s dn allNotes x y) then 1 else 0) \<and>
      length (guides_on horizontal (guides_r (fst (calculateSnap s dn allNotes x y)))) =
        (if snappedY (snapLoop s dn allNotes x y) then 1 else 0))"
proof (cases "enabled s")
  case False
  then show ?thesis by (simp add: disabled_result no_op_def guides_on_Nil)
next
  case True
  let ?gs = "guides_r (fst (calculateSnap s dn allNotes x y))"
  from True have gs: "?gs = guides (this (snapLoop s dn allNotes x y))"
    by (rule result_guides)
  have v: "length (guides_on vertical ?gs) = (if snappedX (snapLoop s dn allNotes x y) then 1 else 0)"
    by (simp add: gs guides_on_length snapLoop_snappedX)
  have h: "length (guides_on horizontal ?gs) = (if snappedY (snapLoop s dn allNotes x y) then 1 else 0)"
    by (simp add: gs guides_on_length snapLoop_snappedY)
  have l: "length ?gs = length (guides_on vertical ?gs) + length (guides_on horizontal ?gs)"
    by (rule guides_on_split)
  have f: "snapped (fst (calculateSnap s dn allNotes x y)) =
        (snappedX (snapLoop s dn allNotes x y) \<or> snappedY (snapLoop s dn allNotes x y))"
    using True by (rule result_fields)
  have e: "snapped (fst (calculateSnap s dn allNotes x y)) = (?gs \<noteq> [])"
  proof -
    have "(?gs \<noteq> []) = (length ?gs \<noteq> 0)" by simp
    also have "\<dots> = (snappedX (snapLoop s dn allNotes x y) \<or> snappedY (snapLoop s dn allNotes x y))"
      unfolding l v h by simp
    finally show ?thesis using f by simp
  qed
  from v h have "length (guides_on vertical ?gs) \<le> 1" "length (guides_on horizontal ?gs) \<le> 1"
    by simp_all
  moreover from this l have "length ?gs \<le> 2" by linarith
  ultimately show ?thesis using v h l f e by simp
qed

text \<open>
  \<open>neighbor\<close> matches on the x-axis only and \<open>beside\<close> on the y-axis only: two
  guides, from two notes.
\<close>

theorem result_flag_and_guides_witness:
  "enabled example_system \<and>
   guides_r (fst (calculateSnap example_system dragged [neighbor, beside] (Fin 103) (Fin 200))) =
     [guide_of vertical neighbor StartToStart, guide_of horizontal beside StartToStart] \<and>
   length (guides_r (fst (calculateSnap example_system dragged [neighbor, beside] (Fin 103) (Fin 200)))) = 2 \<and>
   snapped (fst (calculateSnap example_system dragged [neighbor, beside] (Fin 103) (Fin 200))) \<and>
   snappedX (snapLoop example_system dragged [neighbor, beside] (Fin 103) (Fin 200)) \<and>
   snappedY (snapLoop example_system dragged [neighbor, beside] (Fin 103) (Fin 200)) \<and>
   id_el neighbor \<noteq> id_el beside"
proof -
  let ?r = "fst (calculateSnap example_system dragged [neighbor, beside] (Fin 103) (Fin 200))"
  have g: "guides_r ?r =
     [guide_of vertical neighbor StartToStart, guide_of horizontal beside StartToStart]"
    by code_simp
  have i: "id_el neighbor \<noteq> id_el beside"
    by (simp add: neighbor_def beside_def)
  have f: "snappedX (snapLoop example_system dragged [neighbor, beside] (Fin 103) (Fin 200))"
    "snappedY (snapLoop example_system dragged [neighbor, beside] (Fin 103) (Fin 200))"
    by code_simp+
  note t = result_flag_and_guides [of example_system dragged "[neighbor, beside]" "Fin 103" "Fin 200"]
  from t have "snapped ?r = (guides_r ?r \<noteq> [])" by (elim conjE)
  then have s: "snapped ?r" by (simp only: g) simp
  from t example_enabled
  have "length (guides_on vertical (guides_r ?r)) = 1 \<and> length (guides_on horizontal (guides_r ?r)) = 1"
    by (simp only: f if_True simp_thms)
  moreover from t
  have "length (guides_r ?r) =
     length (guides_on vertical (guides_r ?r)) + length (guides_on horizontal (guides_r ?r))"
    by (elim conjE)
  ultimately have l: "length (guides_r ?r) = 2" by simp
  from g i f s l example_enabled show ?thesis by (intro conjI)
qed

text \<open>
  The flag of the result is the same in a call that matched on the x-axis only and in a
  call that matched on the y-axis only: it does not tell the axes apart.
\<close>

theorem single_flag_counterexample:
  "snapped (fst (calculateSnap example_system dragged [neighbor] (Fin 103) (Fin 200))) \<and>
   snapped (fst (calculateSnap example_system dragged [beside] (Fin 103) (Fin 200))) \<and>
   snappedX (snapLoop example_system dragged [neighbor] (Fin 103) (Fin 200)) \<and>
   \<not> snappedY (snapLoop example_system dragged [neighbor] (Fin 103) (Fin 200)) \<and>
   \<not> snappedX (snapLoop example_system dragged [beside] (Fin 103) (Fin 200)) \<and>
   snappedY (snapLoop example_system dragged [beside] (Fin 103) (Fin 200))"
  by code_simp

section \<open>Snapping off, or no candidates\<close>

lemma sub_self: "x - x = (if isFinite x then Fin 0 else NaN)"
  by (cases x) (simp_all add: minus_number_def)

text \<open>
  C5, as the code has it. With snapping off the call returns the no-op result and leaves
  the system as it was, whatever the boxes. With no candidate (no note but the dragged
  one) the result reports no snap and has no guide, and both deltas are zero when the
  requested position is finite; the delta is \<open>currentX - currentX\<close>, which is \<open>NaN\<close>
  for a position that is not finite.
\<close>

theorem disabled_or_no_candidates:
  "(\<not> enabled s \<longrightarrow> calculateSnap s dn allNotes x y = (no_op, s)) \<and>
   (candidates dn allNotes = [] \<longrightarrow>
      \<not> snapped (fst (calculateSnap s dn allNotes x y)) \<and>
      guides_r (fst (calculateSnap s dn allNotes x y)) = []) \<and>
   (candidates dn allNotes = [] \<and> isFinite x \<and> isFinite y \<longrightarrow>
      fst (calculateSnap s dn allNotes x y) = no_op)"
proof (cases "enabled s")
  case False
  then show ?thesis by (simp add: disabled_result no_op_def)
next
  case True
  have loop: "candidates dn allNotes = [] \<Longrightarrow>
      snapLoop s dn allNotes x y =
        \<lparr>this = s\<lparr>guides := []\<rparr>, snapX = x, snapY = y, snappedX = False, snappedY = False\<rparr>"
    by (subst snapLoop_candidates [symmetric]) (simp add: snapLoop_def)
  have "candidates dn allNotes = [] \<Longrightarrow>
      fst (calculateSnap s dn allNotes x y) =
        \<lparr>snapped = False, deltaX = x - x, deltaY = y - y, guides_r = []\<rparr>"
    using True by (simp add: calculateSnap_def loop)
  with True show ?thesis by (simp add: no_op_def sub_self)
qed

text \<open>
  Snapping off with the dragged box exactly on the neighbour's left and top edges, and
  snapping on with the dragged note as the only note, or with none.
\<close>

theorem disabled_or_no_candidates_witness:
  "\<not> enabled (setEnabled False example_system) \<and>
   left (draggedBounds_of dragged (Fin 100) (Fin 50)) = left (targetBounds_of neighbor) \<and>
   top_nb (draggedBounds_of dragged (Fin 100) (Fin 50)) = top_nb (targetBounds_of neighbor) \<and>
   fst (calculateSnap (setEnabled False example_system) dragged [dragged, neighbor] (Fin 100) (Fin 50)) = no_op \<and>
   candidates dragged [dragged] = [] \<and>
   fst (calculateSnap example_system dragged [dragged] (Fin 100) (Fin 50)) = no_op \<and>
   fst (calculateSnap example_system dragged [] (Fin 100) (Fin 50)) = no_op"
proof -
  have d: "\<not> enabled (setEnabled False example_system)"
    by (simp add: setEnabled_def clearGuides_def)
  have c: "candidates dragged [dragged] = []" "candidates dragged [] = []"
    by (simp_all add: candidates_def)
  have b: "left (draggedBounds_of dragged (Fin 100) (Fin 50)) = left (targetBounds_of neighbor)"
    "top_nb (draggedBounds_of dragged (Fin 100) (Fin 50)) = top_nb (targetBounds_of neighbor)"
    by code_simp+
  have f: "isFinite (Fin 100)" "isFinite (Fin 50)" by simp_all
  from disabled_or_no_candidates [of "setEnabled False example_system" dragged "[dragged, neighbor]" "Fin 100" "Fin 50"]
    disabled_or_no_candidates [of example_system dragged "[dragged]" "Fin 100" "Fin 50"]
    disabled_or_no_candidates [of example_system dragged "[]" "Fin 100" "Fin 50"]
    d c b f
  show ?thesis by simp
qed

text \<open>With no candidate and a requested left that is \<open>NaN\<close>, \<open>deltaX\<close> is \<open>NaN\<close>, not zero.\<close>

theorem no_candidates_NaN_counterexample:
  "enabled example_system \<and>
   fst (calculateSnap example_system dragged [] NaN (Fin 200)) =
     \<lparr>snapped = False, deltaX = NaN, deltaY = Fin 0, guides_r = []\<rparr> \<and>
   fst (calculateSnap example_system dragged [] NaN (Fin 200)) \<noteq> no_op"
  by code_simp

section \<open>Coordinates that are not finite\<close>

lemma loop_guide_match:
  assumes "g \<in> set (guides (this (snapLoop s dn allNotes x y)))"
  shows "\<exists>n k. n \<in> set (candidates dn allNotes) \<and> g = guide_of (type_g g) n k \<and>
           first_check (snapThreshold s) (type_g g) (draggedBounds_of dn x y) (targetBounds_of n)
             = Some k"
proof -
  let ?fm = "first_match (snapThreshold s) (type_g g) (draggedBounds_of dn x y) (candidates dn allNotes)"
  from assms have "g \<in> set (guides_on (type_g g) (guides (this (snapLoop s dn allNotes x y))))"
    by (rule guide_in_axis)
  then have "g \<in> set (case ?fm of None \<Rightarrow> [] | Some (m, k) \<Rightarrow> [guide_of (type_g g) m k])"
    by (simp only: guides_on_cases)
  then obtain n k where fm: "?fm = Some (n, k)" and g: "g = guide_of (type_g g) n k"
    by (cases ?fm) auto
  from fm have "n \<in> set (candidates dn allNotes)"
    "first_check (snapThreshold s) (type_g g) (draggedBounds_of dn x y) (targetBounds_of n) = Some k"
    by (simp_all add: first_match_Some)
  with g show ?thesis by blast
qed

lemma Fin_minus_Fin: "Fin a - Fin b = Fin (a - b)"
  by (simp add: minus_number_def)

lemma deltaX_cases:
  assumes "enabled s"
  shows "deltaX (fst (calculateSnap s dn allNotes x y)) =
     (case first_match (snapThreshold s) vertical (draggedBounds_of dn x y) (candidates dn allNotes) of
        None \<Rightarrow> x - x
      | Some (n, k) \<Rightarrow> neighbor_coord vertical k (targetBounds_of n) -
                        dragged_coord vertical k (draggedBounds_of dn x y))"
  using assms
  by (simp add: result_fields snapLoop_snapX snap_to_delta_vertical split: option.splits)

lemma deltaY_cases:
  assumes "enabled s"
  shows "deltaY (fst (calculateSnap s dn allNotes x y)) =
     (case first_match (snapThreshold s) horizontal (draggedBounds_of dn x y) (candidates dn allNotes) of
        None \<Rightarrow> y - y
      | Some (n, k) \<Rightarrow> neighbor_coord horizontal k (targetBounds_of n) -
                        dragged_coord horizontal k (draggedBounds_of dn x y))"
  using assms
  by (simp add: result_fields snapLoop_snapY snap_to_delta_horizontal split: option.splits)

text \<open>Within a finite threshold of each other, two coordinates are both finite.\<close>

lemma within_finite:
  "isFinite thr \<Longrightarrow> \<bar>a - b\<bar> \<le> thr \<Longrightarrow> isFinite a \<and> isFinite b"
  by (cases thr; cases a; cases b) (simp_all add: minus_number_def)

lemma matches_finite:
  "isFinite thr \<Longrightarrow> matches thr ax d t k \<Longrightarrow>
   isFinite (dragged_coord ax k d) \<and> isFinite (neighbor_coord ax k t)"
  unfolding matches_def by (rule within_finite)

lemma first_check_matches: "first_check thr ax d t = Some k \<Longrightarrow> matches thr ax d t k"
  by (simp add: first_check_unfold split: if_splits)

lemma first_check_finite:
  "isFinite thr \<Longrightarrow> first_check thr ax d t = Some k \<Longrightarrow>
   isFinite (dragged_coord ax k d) \<and> isFinite (neighbor_coord ax k t)"
  using matches_finite first_check_matches by blast

lemma nonfinite_vertical:
  assumes "isFinite thr"
    and "\<not> isFinite (left t)" and "\<not> isFinite (right t)" and "\<not> isFinite (centerX t)"
  shows "first_check thr vertical d t = None"
proof (cases "first_check thr vertical d t")
  case None
  then show ?thesis .
next
  case (Some k)
  with assms(1) have "isFinite (neighbor_coord vertical k t)" by (simp add: first_check_finite)
  with assms(2-4) show ?thesis by (cases k) simp_all
qed

lemma nonfinite_horizontal:
  assumes "isFinite thr"
    and "\<not> isFinite (top_nb t)" and "\<not> isFinite (bottom t)" and "\<not> isFinite (centerY t)"
  shows "first_check thr horizontal d t = None"
proof (cases "first_check thr horizontal d t")
  case None
  then show ?thesis .
next
  case (Some k)
  with assms(1) have "isFinite (neighbor_coord horizontal k t)" by (simp add: first_check_finite)
  with assms(2-4) show ?thesis by (cases k) simp_all
qed

lemma target_axis_finite:
  "isFinite (right (targetBounds_of n)) = isFinite (left (targetBounds_of n))"
  "isFinite (centerX (targetBounds_of n)) = isFinite (left (targetBounds_of n))"
  "isFinite (bottom (targetBounds_of n)) = isFinite (top_nb (targetBounds_of n))"
  "isFinite (centerY (targetBounds_of n)) = isFinite (top_nb (targetBounds_of n))"
  using target_vertical_cases [of n] target_horizontal_cases [of n] by auto

lemma first_match_filter:
  assumes "\<And>n. \<not> P n \<Longrightarrow> first_check thr ax d (targetBounds_of n) = None"
  shows "first_match thr ax d (filter P cs) = first_match thr ax d cs"
  by (induction cs) (simp_all add: assms split: option.splits)

lemma candidates_filter: "candidates dn (filter P allNotes) = filter P (candidates dn allNotes)"
  by (induction allNotes) (simp_all add: candidates_def)

lemma axis_outcome:
  assumes "first_match (snapThreshold s) vertical (draggedBounds_of dn x y) (candidates dn other) =
           first_match (snapThreshold s) vertical (draggedBounds_of dn x y) (candidates dn allNotes)"
  shows "guides_on vertical (guides_r (fst (calculateSnap s dn allNotes x y))) =
         guides_on vertical (guides_r (fst (calculateSnap s dn other x y)))"
    and "deltaX (fst (calculateSnap s dn allNotes x y)) = deltaX (fst (calculateSnap s dn other x y))"
proof -
  show "guides_on vertical (guides_r (fst (calculateSnap s dn allNotes x y))) =
         guides_on vertical (guides_r (fst (calculateSnap s dn other x y)))"
    by (cases "enabled s") (simp_all add: result_guides guides_on_cases assms disabled_result)
  show "deltaX (fst (calculateSnap s dn allNotes x y)) = deltaX (fst (calculateSnap s dn other x y))"
    by (cases "enabled s") (simp_all add: deltaX_cases assms disabled_result)
qed

lemma axis_outcome_horizontal:
  assumes "first_match (snapThreshold s) horizontal (draggedBounds_of dn x y) (candidates dn other) =
           first_match (snapThreshold s) horizontal (draggedBounds_of dn x y) (candidates dn allNotes)"
  shows "guides_on horizontal (guides_r (fst (calculateSnap s dn allNotes x y))) =
         guides_on horizontal (guides_r (fst (calculateSnap s dn other x y)))"
    and "deltaY (fst (calculateSnap s dn allNotes x y)) = deltaY (fst (calculateSnap s dn other x y))"
proof -
  show "guides_on horizontal (guides_r (fst (calculateSnap s dn allNotes x y))) =
         guides_on horizontal (guides_r (fst (calculateSnap s dn other x y)))"
    by (cases "enabled s") (simp_all add: result_guides guides_on_cases assms disabled_result)
  show "deltaY (fst (calculateSnap s dn allNotes x y)) = deltaY (fst (calculateSnap s dn other x y))"
    by (cases "enabled s") (simp_all add: deltaY_cases assms disabled_result)
qed

lemma result_guide_finite:
  assumes "isFinite (snapThreshold s)"
    and "g \<in> set (guides_r (fst (calculateSnap s dn allNotes x y)))"
  shows "isFinite (position g)"
proof (cases "enabled s")
  case False
  with assms(2) show ?thesis by (simp add: disabled_result no_op_def)
next
  case True
  with assms(2) have "g \<in> set (guides (this (snapLoop s dn allNotes x y)))"
    by (simp add: result_guides)
  from loop_guide_match [OF this] obtain n k where
    g: "g = guide_of (type_g g) n k" and
    c: "first_check (snapThreshold s) (type_g g) (draggedBounds_of dn x y) (targetBounds_of n) = Some k"
    by blast
  from first_check_finite [OF assms(1) c]
  have "isFinite (neighbor_coord (type_g g) k (targetBounds_of n))" by simp
  then have "isFinite (position (guide_of (type_g g) n k))" by (simp add: guide_of_def)
  with g show ?thesis by simp
qed

lemma finite_difference: "isFinite a \<Longrightarrow> isFinite b \<Longrightarrow> isFinite (a - b)"
  by (cases a; cases b) (simp_all add: minus_number_def)

lemma deltaX_finite:
  assumes "isFinite (snapThreshold s)" and "isFinite x"
  shows "isFinite (deltaX (fst (calculateSnap s dn allNotes x y)))"
proof (cases "enabled s")
  case False
  then show ?thesis by (simp add: disabled_result no_op_def)
next
  case True
  show ?thesis
  proof (cases "first_match (snapThreshold s) vertical (draggedBounds_of dn x y) (candidates dn allNotes)")
    case None
    with assms(2) show ?thesis by (simp add: deltaX_cases [OF True] sub_self)
  next
    case (Some nk)
    then obtain n k where nk: "nk = (n, k)" by (cases nk)
    with Some have "first_check (snapThreshold s) vertical (draggedBounds_of dn x y)
        (targetBounds_of n) = Some k"
      by (simp add: first_match_Some)
    from first_check_finite [OF assms(1) this] Some nk show ?thesis
      by (simp add: deltaX_cases [OF True] finite_difference)
  qed
qed

lemma deltaY_finite:
  assumes "isFinite (snapThreshold s)" and "isFinite y"
  shows "isFinite (deltaY (fst (calculateSnap s dn allNotes x y)))"
proof (cases "enabled s")
  case False
  then show ?thesis by (simp add: disabled_result no_op_def)
next
  case True
  show ?thesis
  proof (cases "first_match (snapThreshold s) horizontal (draggedBounds_of dn x y) (candidates dn allNotes)")
    case None
    with assms(2) show ?thesis by (simp add: deltaY_cases [OF True] sub_self)
  next
    case (Some nk)
    then obtain n k where nk: "nk = (n, k)" by (cases nk)
    with Some have "first_check (snapThreshold s) horizontal (draggedBounds_of dn x y)
        (targetBounds_of n) = Some k"
      by (simp add: first_match_Some)
    from first_check_finite [OF assms(1) this] Some nk show ?thesis
      by (simp add: deltaY_cases [OF True] finite_difference)
  qed
qed

text \<open>
  C8, as the code has it. The two axes are scanned apart. With a finite threshold (it is
  4), a candidate whose box is not finite on an axis yields no match and no guide on that
  axis: its three coordinates of the axis are then all infinite, every comparison with
  them is false, and the block of the axis leaves every variable as it was. The guides
  and the delta of the axis are those of the call without such candidates, every guide
  position is finite, and a delta is finite whenever the requested coordinate is. On the
  other axis the candidate is scanned like any other note.
\<close>

theorem nonfinite_axis_ignored:
  assumes "isFinite (snapThreshold s)"
  shows
   "isFinite (right (targetBounds_of n)) = isFinite (left (targetBounds_of n)) \<and>
    isFinite (centerX (targetBounds_of n)) = isFinite (left (targetBounds_of n)) \<and>
    isFinite (bottom (targetBounds_of n)) = isFinite (top_nb (targetBounds_of n)) \<and>
    isFinite (centerY (targetBounds_of n)) = isFinite (top_nb (targetBounds_of n)) \<and>
    (snapThreshold (this f) = snapThreshold s \<and>
       \<not> isFinite (left t) \<and> \<not> isFinite (right t) \<and> \<not> isFinite (centerX t) \<longrightarrow>
       checkVertical d t el f = f) \<and>
    (snapThreshold (this f) = snapThreshold s \<and>
       \<not> isFinite (top_nb t) \<and> \<not> isFinite (bottom t) \<and> \<not> isFinite (centerY t) \<longrightarrow>
       checkHorizontal d t el f = f) \<and>
    guides_on vertical (guides_r (fst (calculateSnap s dn allNotes x y))) =
      guides_on vertical (guides_r (fst (calculateSnap s dn
        (filter (\<lambda>m. isFinite (left (targetBounds_of m))) allNotes) x y))) \<and>
    deltaX (fst (calculateSnap s dn allNotes x y)) =
      deltaX (fst (calculateSnap s dn
        (filter (\<lambda>m. isFinite (left (targetBounds_of m))) allNotes) x y)) \<and>
    guides_on horizontal (guides_r (fst (calculateSnap s dn allNotes x y))) =
      guides_on horizontal (guides_r (fst (calculateSnap s dn
        (filter (\<lambda>m. isFinite (top_nb (targetBounds_of m))) allNotes) x y))) \<and>
    deltaY (fst (calculateSnap s dn allNotes x y)) =
      deltaY (fst (calculateSnap s dn
        (filter (\<lambda>m. isFinite (top_nb (targetBounds_of m))) allNotes) x y)) \<and>
    (\<forall>g\<in>set (guides_r (fst (calculateSnap s dn allNotes x y))). isFinite (position g)) \<and>
    (isFinite x \<longrightarrow> isFinite (deltaX (fst (calculateSnap s dn allNotes x y)))) \<and>
    (isFinite y \<longrightarrow> isFinite (deltaY (fst (calculateSnap s dn allNotes x y))))"
proof -
  let ?d = "draggedBounds_of dn x y"
  have v: "snapThreshold (this f) = snapThreshold s \<and>
       \<not> isFinite (left t) \<and> \<not> isFinite (right t) \<and> \<not> isFinite (centerX t) \<longrightarrow>
       checkVertical d t el f = f"
    using assms by (simp add: checkVertical_eq nonfinite_vertical)
  have h: "snapThreshold (this f) = snapThreshold s \<and>
       \<not> isFinite (top_nb t) \<and> \<not> isFinite (bottom t) \<and> \<not> isFinite (centerY t) \<longrightarrow>
       checkHorizontal d t el f = f"
    using assms by (simp add: checkHorizontal_eq nonfinite_horizontal)
  have "\<And>m. \<not> isFinite (left (targetBounds_of m)) \<Longrightarrow>
      first_check (snapThreshold s) vertical ?d (targetBounds_of m) = None"
    using assms by (simp add: nonfinite_vertical target_axis_finite)
  then have "first_match (snapThreshold s) vertical ?d
        (candidates dn (filter (\<lambda>m. isFinite (left (targetBounds_of m))) allNotes)) =
      first_match (snapThreshold s) vertical ?d (candidates dn allNotes)"
    unfolding candidates_filter by (rule first_match_filter)
  note cv = axis_outcome [OF this]
  have "\<And>m. \<not> isFinite (top_nb (targetBounds_of m)) \<Longrightarrow>
      first_check (snapThreshold s) horizontal ?d (targetBounds_of m) = None"
    using assms by (simp add: nonfinite_horizontal target_axis_finite)
  then have "first_match (snapThreshold s) horizontal ?d
        (candidates dn (filter (\<lambda>m. isFinite (top_nb (targetBounds_of m))) allNotes)) =
      first_match (snapThreshold s) horizontal ?d (candidates dn allNotes)"
    unfolding candidates_filter by (rule first_match_filter)
  note ch = axis_outcome_horizontal [OF this]
  have p: "\<forall>g\<in>set (guides_r (fst (calculateSnap s dn allNotes x y))). isFinite (position g)"
    using assms by (blast intro: result_guide_finite)
  have dx: "isFinite x \<longrightarrow> isFinite (deltaX (fst (calculateSnap s dn allNotes x y)))"
    using assms by (blast intro: deltaX_finite)
  have dy: "isFinite y \<longrightarrow> isFinite (deltaY (fst (calculateSnap s dn allNotes x y)))"
    using assms by (blast intro: deltaY_finite)
  from target_axis_finite [of n] v h cv ch p dx dy show ?thesis by (intro conjI)
qed

text \<open>
  \<open>overflowing\<close>: its left, right and centre are infinite, its top edge is 200.
\<close>

lemma overflowing_parse:
  "parseInt (style_left overflowing) = PInf" "parseInt (style_top overflowing) = Fin 200"
  by code_simp+

lemma overflowing_size: "offsetWidth overflowing = 120" "offsetHeight overflowing = 40"
  by (simp_all add: overflowing_def)

lemma overflowing_box:
  "targetBounds_of overflowing =
     \<lparr>id_nb = id_el overflowing, left = PInf, top_nb = Fin 200, right = PInf, bottom = Fin 240,
      width = Fin 120, height = Fin 40, centerX = PInf, centerY = Fin 220\<rparr>"
  by (simp add: targetBounds_of_def overflowing_parse overflowing_size or_zero_def num_def)

lemma dragged_box:
  "draggedBounds_of dragged (Fin 103) (Fin 200) =
     \<lparr>id_nb = id_el dragged, left = Fin 103, top_nb = Fin 200, right = Fin 183, bottom = Fin 240,
      width = Fin 80, height = Fin 40, centerX = Fin 143, centerY = Fin 220\<rparr>"
  by (simp add: draggedBounds_of_def dragged_def num_def)

text \<open>Before \<open>neighbor\<close> in the list, \<open>overflowing\<close> changes nothing on the x-axis.\<close>

theorem nonfinite_axis_ignored_witness:
  "isFinite (snapThreshold example_system) \<and>
   left (targetBounds_of overflowing) = PInf \<and>
   \<not> isFinite (right (targetBounds_of overflowing)) \<and>
   \<not> isFinite (centerX (targetBounds_of overflowing)) \<and>
   filter (\<lambda>m. isFinite (left (targetBounds_of m))) [overflowing, neighbor] = [neighbor] \<and>
   guides_on vertical (guides_r (fst (calculateSnap example_system dragged [overflowing, neighbor]
       (Fin 103) (Fin 200)))) = [guide_of vertical neighbor StartToStart] \<and>
   deltaX (fst (calculateSnap example_system dragged [overflowing, neighbor] (Fin 103) (Fin 200)))
     = Fin (- 3) \<and>
   checkVertical (draggedBounds_of dragged (Fin 103) (Fin 200)) (targetBounds_of overflowing)
       overflowing
       \<lparr>this = example_system, snapX = Fin 103, snapY = Fin 200,
        snappedX = False, snappedY = False\<rparr> =
     \<lparr>this = example_system, snapX = Fin 103, snapY = Fin 200,
      snappedX = False, snappedY = False\<rparr> \<and>
   isFinite (deltaX (fst (calculateSnap example_system dragged [overflowing, neighbor]
       (Fin 103) (Fin 200))))"
proof -
  let ?r = "fst (calculateSnap example_system dragged [overflowing, neighbor] (Fin 103) (Fin 200))"
  let ?f = "\<lparr>this = example_system, snapX = Fin 103, snapY = Fin 200,
             snappedX = False, snappedY = False\<rparr>"
  have t: "isFinite (snapThreshold example_system)"
    by (simp add: example_threshold)
  have l: "left (targetBounds_of overflowing) = PInf"
    by (simp add: overflowing_box)
  have n: "isFinite (left (targetBounds_of neighbor))"
    by code_simp
  have f: "filter (\<lambda>m. isFinite (left (targetBounds_of m))) [overflowing, neighbor] = [neighbor]"
    by (simp add: l n)
  have g: "guides_on vertical (guides_r (fst (calculateSnap example_system dragged [neighbor]
       (Fin 103) (Fin 200)))) = [guide_of vertical neighbor StartToStart]"
    "deltaX (fst (calculateSnap example_system dragged [neighbor] (Fin 103) (Fin 200))) = Fin (- 3)"
    by code_simp+
  note w = nonfinite_axis_ignored [OF t, where n = overflowing and dn = dragged
      and allNotes = "[overflowing, neighbor]" and x = "Fin 103" and y = "Fin 200"
      and f = ?f and t = "targetBounds_of overflowing" and el = overflowing
      and d = "draggedBounds_of dragged (Fin 103) (Fin 200)"]
  from w [THEN conjunct1] have r: "\<not> isFinite (right (targetBounds_of overflowing))"
    by (simp add: l)
  from w [THEN conjunct2, THEN conjunct1]
  have c: "\<not> isFinite (centerX (targetBounds_of overflowing))"
    by (simp add: l)
  from w [THEN conjunct2, THEN conjunct2, THEN conjunct2, THEN conjunct2, THEN conjunct2,
      THEN conjunct2, THEN conjunct1]
  have gv: "guides_on vertical (guides_r ?r) = [guide_of vertical neighbor StartToStart]"
    by (simp only: f g)
  from w [THEN conjunct2, THEN conjunct2, THEN conjunct2, THEN conjunct2, THEN conjunct2,
      THEN conjunct2, THEN conjunct2, THEN conjunct1]
  have dx: "deltaX ?r = Fin (- 3)"
    by (simp only: f g)
  have th: "snapThreshold (this ?f) = snapThreshold example_system" by simp
  from w [THEN conjunct2, THEN conjunct2, THEN conjunct2, THEN conjunct2, THEN conjunct1]
    th l r c
  have cv: "checkVertical (draggedBounds_of dragged (Fin 103) (Fin 200))
      (targetBounds_of overflowing) overflowing ?f = ?f"
    by simp
  have "isFinite (Fin 103)" by simp
  with w [THEN conjunct2, THEN conjunct2, THEN conjunct2, THEN conjunct2, THEN conjunct2,
      THEN conjunct2, THEN conjunct2, THEN conjunct2, THEN conjunct2, THEN conjunct2,
      THEN conjunct2, THEN conjunct1]
  have fd: "isFinite (deltaX ?r)" by blast
  from t l r c f gv dx cv fd show ?thesis by (intro conjI)
qed

text \<open>
  The box of \<open>overflowing\<close> holds values that are not finite, its left, right and centre.
  Its top edge is 200, where the top edge of the dragged box is: a match on the y-axis and
  a horizontal guide come from that candidate.
\<close>

theorem nonfinite_other_axis_counterexample:
  "\<not> isFinite (left (targetBounds_of overflowing)) \<and>
   \<not> isFinite (right (targetBounds_of overflowing)) \<and>
   \<not> isFinite (centerX (targetBounds_of overflowing)) \<and>
   fst (calculateSnap example_system dragged [overflowing] (Fin 103) (Fin 200)) =
     \<lparr>snapped = True, deltaX = Fin 0, deltaY = Fin 0,
      guides_r = [\<lparr>type_g = horizontal, position = Fin 200, strength = Fin 1,
                   sourceId = id_el overflowing\<rparr>]\<rparr>"
proof -
  let ?d = "draggedBounds_of dragged (Fin 103) (Fin 200)"
  let ?r = "fst (calculateSnap example_system dragged [overflowing] (Fin 103) (Fin 200))"
  have c: "candidates dragged [overflowing] = [overflowing]"
    by (simp add: candidates_def dragged_def overflowing_def)
  have v: "first_match (Fin 4) vertical ?d [overflowing] = None"
    by (simp add: first_check_unfold matches_def overflowing_box dragged_box minus_number_def)
  have h: "first_match (Fin 4) horizontal ?d [overflowing] = Some (overflowing, StartToStart)"
    by (simp add: first_check_unfold matches_def overflowing_box dragged_box minus_number_def)
  have g: "guide_of horizontal overflowing StartToStart =
      \<lparr>type_g = horizontal, position = Fin 200, strength = Fin 1, sourceId = id_el overflowing\<rparr>"
    by (simp add: guide_of_def overflowing_box)
  have gv: "guides_on vertical (guides_r ?r) = []"
    using example_enabled
    by (simp add: result_guides guides_on_cases c v example_threshold del: first_match.simps)
  have gh: "guides_on horizontal (guides_r ?r) = [guide_of horizontal overflowing StartToStart]"
    using example_enabled
    by (simp add: result_guides guides_on_cases c h example_threshold del: first_match.simps)
  from gv have "guides_r ?r = guides_on horizontal (guides_r ?r)"
    by (rule guides_only_horizontal)
  with gh have gs: "guides_r ?r = [guide_of horizontal overflowing StartToStart]"
    by simp
  have sn: "snapped ?r = True"
    using example_enabled
    by (simp add: result_fields snapLoop_snappedY c h example_threshold del: first_match.simps)
  have dx: "deltaX ?r = Fin 0"
    by (simp add: deltaX_cases [OF example_enabled] c v example_threshold minus_number_def
        del: first_match.simps)
  have e: "neighbor_coord horizontal StartToStart (targetBounds_of overflowing) -
      dragged_coord horizontal StartToStart ?d = Fin 0"
    by (simp add: overflowing_box dragged_box minus_number_def)
  have dy: "deltaY ?r = Fin 0"
    by (simp add: deltaY_cases [OF example_enabled] c h example_threshold e
        del: first_match.simps neighbor_coord.simps dragged_coord.simps)
  have "?r = \<lparr>snapped = True, deltaX = Fin 0, deltaY = Fin 0,
      guides_r = [\<lparr>type_g = horizontal, position = Fin 200, strength = Fin 1,
                   sourceId = id_el overflowing\<rparr>]\<rparr>"
    by (rule SnapResult.equality) (simp_all add: sn dx dy gs g)
  then show ?thesis by (simp add: overflowing_box)
qed

section \<open>What a call does to the system\<close>

lemma drawGuide_eq:
  "drawGuide cv g c =
     c\<lparr>path := (if \<not> isFinite (position g) then []
                else [if type_g g = vertical
                      then [(position g, Fin 0), (position g, num (canvas_height cv))]
                      else [(Fin 0, position g), (num (canvas_width cv), position g)]]),
       bitmap := bitmap c @ [guide_paint cv g]\<rparr>"
  by (simp add: drawGuide_def save_def set_strokeStyle_def set_lineWidth_def setLineDash_def
      beginPath_def moveTo_def lineTo_def stroke_def restore_def guide_paint_def num_def Let_def)

lemma fold_drawGuide_bitmap:
  "bitmap (fold (drawGuide cv) gs c) = bitmap c @ map (guide_paint cv) gs"
  by (induction gs arbitrary: c) (simp_all add: drawGuide_eq)

lemma renderGuides_bitmap:
  "bitmap (ctx (renderGuides s)) = map (guide_paint (canvas s)) (guides s)"
  by (simp add: renderGuides_def clearRect_whole fold_drawGuide_bitmap)

lemma renderGuides_frame:
  "guides (renderGuides s) = guides s" "enabled (renderGuides s) = enabled s"
  "snapThreshold (renderGuides s) = snapThreshold s" "canvas (renderGuides s) = canvas s"
  by (simp_all add: renderGuides_def Let_def)

lemma calculateSnap_state:
  "snd (calculateSnap s dn allNotes x y) =
     (if \<not> enabled s then s
      else if snapped (fst (calculateSnap s dn allNotes x y))
      then renderGuides (s\<lparr>guides := guides_r (fst (calculateSnap s dn allNotes x y))\<rparr>)
      else s\<lparr>guides := guides_r (fst (calculateSnap s dn allNotes x y))\<rparr>)"
proof (cases "enabled s")
  case False
  then show ?thesis by (simp add: calculateSnap_def)
next
  case True
  have "this (snapLoop s dn allNotes x y) = s\<lparr>guides := guides (this (snapLoop s dn allNotes x y))\<rparr>"
    by (rule snapLoop_this)
  then have "this (snapLoop s dn allNotes x y) =
      s\<lparr>guides := guides_r (fst (calculateSnap s dn allNotes x y))\<rparr>"
    using True by (simp add: result_guides)
  moreover have "snd (calculateSnap s dn allNotes x y) =
     (if snapped (fst (calculateSnap s dn allNotes x y))
      then renderGuides (this (snapLoop s dn allNotes x y))
      else this (snapLoop s dn allNotes x y))"
    using True by (simp add: calculateSnap_def Let_def)
  ultimately show ?thesis using True by simp
qed

text \<open>
  C6, as the code has it. \<open>calculateSnap\<close> is not free of effects. With snapping off it
  changes nothing. With snapping on it replaces \<open>this.guides\<close> by the guides of the
  result, and when the result is a snap it calls \<open>renderGuides\<close> itself: the canvas is
  cleared and holds one dashed line per guide. It never changes \<open>enabled\<close>, the
  threshold or the size of the canvas, and it writes to no note: adding the deltas to the
  positions is left to the caller.
\<close>

theorem calculateSnap_effects:
  "snd (calculateSnap s dn allNotes x y) =
     (if \<not> enabled s then s
      else if snapped (fst (calculateSnap s dn allNotes x y))
      then renderGuides (s\<lparr>guides := guides_r (fst (calculateSnap s dn allNotes x y))\<rparr>)
      else s\<lparr>guides := guides_r (fst (calculateSnap s dn allNotes x y))\<rparr>) \<and>
   guides (snd (calculateSnap s dn allNotes x y)) =
     (if enabled s then guides_r (fst (calculateSnap s dn allNotes x y)) else guides s) \<and>
   bitmap (ctx (snd (calculateSnap s dn allNotes x y))) =
     (if enabled s \<and> snapped (fst (calculateSnap s dn allNotes x y))
      then map (guide_paint (canvas s)) (guides_r (fst (calculateSnap s dn allNotes x y)))
      else bitmap (ctx s)) \<and>
   enabled (snd (calculateSnap s dn allNotes x y)) = enabled s \<and>
   snapThreshold (snd (calculateSnap s dn allNotes x y)) = snapThreshold s \<and>
   canvas (snd (calculateSnap s dn allNotes x y)) = canvas s"
proof -
  let ?r = "fst (calculateSnap s dn allNotes x y)"
  have b: "bitmap (ctx (renderGuides (s\<lparr>guides := guides_r ?r\<rparr>))) =
      map (guide_paint (canvas s)) (guides_r ?r)"
    by (simp add: renderGuides_bitmap)
  show ?thesis
    unfolding calculateSnap_state [of s dn allNotes x y]
    by (simp add: renderGuides_frame b)
qed

text \<open>No snap, snapping off, and a snap on the x-axis.\<close>

theorem calculateSnap_effects_witness:
  "snd (calculateSnap example_system dragged [neighbor] (Fin 105) (Fin 200)) =
     example_system\<lparr>guides := []\<rparr> \<and>
   snd (calculateSnap (setEnabled False example_system) dragged [neighbor] (Fin 103) (Fin 200)) =
     setEnabled False example_system \<and>
   bitmap (ctx (snd (calculateSnap example_system dragged [neighbor] (Fin 103) (Fin 200)))) =
     [guide_paint (canvas example_system) (guide_of vertical neighbor StartToStart)]"
proof -
  have r1: "fst (calculateSnap example_system dragged [neighbor] (Fin 105) (Fin 200)) = no_op"
    by code_simp
  have d: "\<not> enabled (setEnabled False example_system)"
    by (simp add: setEnabled_def clearGuides_def)
  have r2: "snapped (fst (calculateSnap example_system dragged [neighbor] (Fin 103) (Fin 200)))"
    "guides_r (fst (calculateSnap example_system dragged [neighbor] (Fin 103) (Fin 200))) =
       [guide_of vertical neighbor StartToStart]"
    by code_simp+
  note t = calculateSnap_effects [of _ dragged "[neighbor]" _ "Fin 200"]
  from t [of example_system "Fin 105", THEN conjunct1]
  have a: "snd (calculateSnap example_system dragged [neighbor] (Fin 105) (Fin 200)) =
     example_system\<lparr>guides := []\<rparr>"
    by (simp only: r1 example_enabled no_op_def SnapResult.simps simp_thms if_True if_False)
  from t [of "setEnabled False example_system" "Fin 103", THEN conjunct1]
  have b: "snd (calculateSnap (setEnabled False example_system) dragged [neighbor] (Fin 103) (Fin 200)) =
     setEnabled False example_system"
    by (simp only: d simp_thms if_True)
  from t [of example_system "Fin 103", THEN conjunct2, THEN conjunct2, THEN conjunct1]
  have c: "bitmap (ctx (snd (calculateSnap example_system dragged [neighbor] (Fin 103) (Fin 200)))) =
     [guide_paint (canvas example_system) (guide_of vertical neighbor StartToStart)]"
    by (simp only: r2 example_enabled simp_thms if_True list.map)
  from a b c show ?thesis by (intro conjI)
qed

text \<open>
  A freshly constructed system holds no guide and a blank canvas; after the call of the
  end-to-end scenario it holds the guide, and the line is on the canvas.
\<close>

theorem calculateSnap_renders_counterexample:
  "guides example_system = [] \<and> bitmap (ctx example_system) = [] \<and>
   guides (snd (calculateSnap example_system dragged [neighbor] (Fin 103) (Fin 200))) =
     [\<lparr>type_g = vertical, position = Fin 100, strength = Fin 1, sourceId = id_el neighbor\<rparr>] \<and>
   bitmap (ctx (snd (calculateSnap example_system dragged [neighbor] (Fin 103) (Fin 200)))) =
     [Stroke ''rgba(255, 0, 100, 0.8)'' (Fin 1) [Fin 5, Fin 5]
        [[(Fin 100, Fin 0), (Fin 100, Fin 600)]]] \<and>
   snd (calculateSnap example_system dragged [neighbor] (Fin 103) (Fin 200)) \<noteq> example_system"
  by code_simp

section \<open>The corrections\<close>

lemma guides_on_empty_iff:
  assumes "enabled s"
  shows "(guides_on ax (guides_r (fst (calculateSnap s dn allNotes x y))) = []) =
     (first_match (snapThreshold s) ax (draggedBounds_of dn x y) (candidates dn allNotes) = None)"
  using assms by (simp add: result_guides guides_on_cases split: option.splits)

lemma matches_first_check: "matches thr ax d t k \<Longrightarrow> first_check thr ax d t \<noteq> None"
  by (cases k) (simp_all add: first_check_unfold)

lemma matching_candidate:
  "n \<in> set cands \<Longrightarrow> matches thr ax d (targetBounds_of n) k \<Longrightarrow> first_match thr ax d cands \<noteq> None"
  using first_match_None matches_first_check by blast

text \<open>On the grid every coordinate is finite.\<close>

lemma on_grid_finite: "on_grid x \<Longrightarrow> isFinite x"
  by (cases x) (simp_all add: on_grid_def)

lemma dragged_coord_finite:
  "isFinite x \<Longrightarrow> isFinite (dragged_coord vertical k (draggedBounds_of dn x y))"
  "isFinite y \<Longrightarrow> isFinite (dragged_coord horizontal k (draggedBounds_of dn x y))"
  by (cases x; cases k; simp add: draggedBounds_of_def num_def)
     (cases y; cases k; simp add: draggedBounds_of_def num_def)

lemma grid_note_finite: "grid_note n \<Longrightarrow> isFinite (neighbor_coord ax k (targetBounds_of n))"
  by (cases ax; cases k) (simp_all add: grid_note_def target_axis_finite on_grid_finite)

lemma aligned_left_matches:
  assumes "left (targetBounds_of n) = x" and "Fin 0 \<le> thr" and "isFinite x"
  shows "first_check thr vertical (draggedBounds_of dn x y) (targetBounds_of n) = Some StartToStart"
proof -
  from assms(3) obtain l where x: "x = Fin l" by (cases x) simp_all
  from assms(1,2) have "matches thr vertical (draggedBounds_of dn x y) (targetBounds_of n) StartToStart"
    unfolding matches_def by (simp add: x draggedBounds_of_def Fin_minus_Fin)
  then show ?thesis by (simp add: first_check_unfold)
qed

lemma correction_lands: "isFinite dc \<Longrightarrow> isFinite nc \<Longrightarrow> dc + (nc - dc) = nc"
  by (cases dc; cases nc) (simp_all add: minus_number_def)

lemma matched_candidate_on_grid:
  assumes "list_all grid_note cands" and "first_match thr ax d cands = Some (n, k)"
  shows "isFinite (neighbor_coord ax k (targetBounds_of n))"
proof -
  from assms(2) have "n \<in> set cands" by (simp add: first_match_Some)
  with assms(1) have "grid_note n" by (simp add: list_all_iff)
  then show ?thesis by (rule grid_note_finite)
qed

text \<open>
  C2, as the code has it, for a requested position, sizes and candidates on the sub-pixel
  grid, where the sums of the code are exact. With snapping on, the delta of an axis is
  the neighbour's matched coordinate minus the dragged box's matched coordinate, for the
  first match of the scan, whichever of the five checks it is; added to the dragged
  coordinate it gives the neighbour's. With no match on the axis the delta is zero. When
  the dragged left edge equals the left edge of a candidate exactly, a snap on the x-axis
  is reported; \<open>deltaX\<close> is zero, and the guide is that candidate's, when no candidate
  before it matches on the x-axis.
\<close>

theorem calculateSnap_delta:
  assumes "enabled s"
    and "on_grid x" and "on_grid y" and "grid_size dn"
    and "list_all grid_note (candidates dn allNotes)"
  shows
   "(case first_match (snapThreshold s) vertical (draggedBounds_of dn x y) (candidates dn allNotes) of
       None \<Rightarrow> deltaX (fst (calculateSnap s dn allNotes x y)) = Fin 0
     | Some (n, k) \<Rightarrow>
         deltaX (fst (calculateSnap s dn allNotes x y)) =
           neighbor_coord vertical k (targetBounds_of n) -
           dragged_coord vertical k (draggedBounds_of dn x y) \<and>
         dragged_coord vertical k (draggedBounds_of dn x y) +
           deltaX (fst (calculateSnap s dn allNotes x y)) =
         neighbor_coord vertical k (targetBounds_of n)) \<and>
    (case first_match (snapThreshold s) horizontal (draggedBounds_of dn x y) (candidates dn allNotes) of
       None \<Rightarrow> deltaY (fst (calculateSnap s dn allNotes x y)) = Fin 0
     | Some (n, k) \<Rightarrow>
         deltaY (fst (calculateSnap s dn allNotes x y)) =
           neighbor_coord horizontal k (targetBounds_of n) -
           dragged_coord horizontal k (draggedBounds_of dn x y) \<and>
         dragged_coord horizontal k (draggedBounds_of dn x y) +
           deltaY (fst (calculateSnap s dn allNotes x y)) =
         neighbor_coord horizontal k (targetBounds_of n)) \<and>
    (\<forall>n\<in>set (candidates dn allNotes).
       left (targetBounds_of n) = x \<and> Fin 0 \<le> snapThreshold s \<longrightarrow>
       guides_on vertical (guides_r (fst (calculateSnap s dn allNotes x y))) \<noteq> []) \<and>
    (\<forall>before n after.
       candidates dn allNotes = before @ n # after \<and>
       first_match (snapThreshold s) vertical (draggedBounds_of dn x y) before = None \<and>
       left (targetBounds_of n) = x \<and> Fin 0 \<le> snapThreshold s \<longrightarrow>
       deltaX (fst (calculateSnap s dn allNotes x y)) = Fin 0 \<and>
       guides_on vertical (guides_r (fst (calculateSnap s dn allNotes x y))) =
         [guide_of vertical n StartToStart])"
proof (intro conjI ballI allI impI)
  from assms(2,3) have fx: "isFinite x" and fy: "isFinite y"
    by (simp_all add: on_grid_finite)
  show "case first_match (snapThreshold s) vertical (draggedBounds_of dn x y) (candidates dn allNotes) of
       None \<Rightarrow> deltaX (fst (calculateSnap s dn allNotes x y)) = Fin 0
     | Some (n, k) \<Rightarrow>
         deltaX (fst (calculateSnap s dn allNotes x y)) =
           neighbor_coord vertical k (targetBounds_of n) -
           dragged_coord vertical k (draggedBounds_of dn x y) \<and>
         dragged_coord vertical k (draggedBounds_of dn x y) +
           deltaX (fst (calculateSnap s dn allNotes x y)) =
         neighbor_coord vertical k (targetBounds_of n)"
    unfolding deltaX_cases [OF assms(1)]
    using fx matched_candidate_on_grid [OF assms(5)]
    by (auto simp: sub_self correction_lands dragged_coord_finite split: option.splits)
  show "case first_match (snapThreshold s) horizontal (draggedBounds_of dn x y) (candidates dn allNotes) of
       None \<Rightarrow> deltaY (fst (calculateSnap s dn allNotes x y)) = Fin 0
     | Some (n, k) \<Rightarrow>
         deltaY (fst (calculateSnap s dn allNotes x y)) =
           neighbor_coord horizontal k (targetBounds_of n) -
           dragged_coord horizontal k (draggedBounds_of dn x y) \<and>
         dragged_coord horizontal k (draggedBounds_of dn x y) +
           deltaY (fst (calculateSnap s dn allNotes x y)) =
         neighbor_coord horizontal k (targetBounds_of n)"
    unfolding deltaY_cases [OF assms(1)]
    using fy matched_candidate_on_grid [OF assms(5)]
    by (auto simp: sub_self correction_lands dragged_coord_finite split: option.splits)
  {
    fix n
    assume n: "n \<in> set (candidates dn allNotes)"
      and h: "left (targetBounds_of n) = x \<and> Fin 0 \<le> snapThreshold s"
    from h fx have "first_check (snapThreshold s) vertical (draggedBounds_of dn x y) (targetBounds_of n)
        = Some StartToStart"
      by (simp add: aligned_left_matches)
    with n have "first_match (snapThreshold s) vertical (draggedBounds_of dn x y) (candidates dn allNotes)
        \<noteq> None"
      by (auto simp: first_match_None)
    then show "guides_on vertical (guides_r (fst (calculateSnap s dn allNotes x y))) \<noteq> []"
      by (simp add: guides_on_empty_iff [OF assms(1)])
  }
  {
    fix before n after
    assume h: "candidates dn allNotes = before @ n # after \<and>
         first_match (snapThreshold s) vertical (draggedBounds_of dn x y) before = None \<and>
         left (targetBounds_of n) = x \<and> Fin 0 \<le> snapThreshold s"
    with fx have c: "first_check (snapThreshold s) vertical (draggedBounds_of dn x y) (targetBounds_of n)
        = Some StartToStart"
      by (simp add: aligned_left_matches)
    with h have fm: "first_match (snapThreshold s) vertical (draggedBounds_of dn x y)
        (candidates dn allNotes) = Some (n, StartToStart)"
      by (simp add: first_match_append)
    from fx obtain l where x: "x = Fin l" by (cases x) simp_all
    with h have l: "left (targetBounds_of n) = Fin l" by simp
    show "deltaX (fst (calculateSnap s dn allNotes x y)) = Fin 0"
      unfolding deltaX_cases [OF assms(1)] fm
      by (simp add: l x draggedBounds_of_def Fin_minus_Fin)
    show "guides_on vertical (guides_r (fst (calculateSnap s dn allNotes x y))) =
           [guide_of vertical n StartToStart]"
      using assms(1) by (simp add: result_guides guides_on_cases fm)
  }
qed

text \<open>
  A right-to-right match one pixel off, and a dragged box whose left edge is exactly on
  the left edge of the second candidate while the first one matches nothing. Positions,
  sizes and candidates are on the grid.
\<close>

theorem calculateSnap_delta_witness:
  "enabled example_system \<and> on_grid (Fin 141) \<and> on_grid (Fin 200) \<and> grid_size dragged \<and>
   list_all grid_note (candidates dragged [neighbor]) \<and>
   first_match (snapThreshold example_system) vertical (draggedBounds_of dragged (Fin 141) (Fin 200))
     (candidates dragged [neighbor]) = Some (neighbor, EndToEnd) \<and>
   deltaX (fst (calculateSnap example_system dragged [neighbor] (Fin 141) (Fin 200))) = Fin (- 1) \<and>
   right (draggedBounds_of dragged (Fin 141) (Fin 200)) +
     deltaX (fst (calculateSnap example_system dragged [neighbor] (Fin 141) (Fin 200))) =
     right (targetBounds_of neighbor) \<and>
   deltaY (fst (calculateSnap example_system dragged [neighbor] (Fin 141) (Fin 200))) = Fin 0 \<and>
   on_grid (Fin 100) \<and> on_grid (Fin 300) \<and>
   list_all grid_note (candidates dragged [beside, neighbor]) \<and>
   left (targetBounds_of neighbor) = Fin 100 \<and>
   deltaX (fst (calculateSnap example_system dragged [beside, neighbor] (Fin 100) (Fin 300))) = Fin 0 \<and>
   guides_on vertical (guides_r (fst (calculateSnap example_system dragged [beside, neighbor] (Fin 100) (Fin 300))))
     = [guide_of vertical neighbor StartToStart]"
proof -
  let ?d = "draggedBounds_of dragged (Fin 141) (Fin 200)"
  let ?r = "fst (calculateSnap example_system dragged [neighbor] (Fin 141) (Fin 200))"
  let ?r' = "fst (calculateSnap example_system dragged [beside, neighbor] (Fin 100) (Fin 300))"
  have gr: "on_grid (Fin 141)" "on_grid (Fin 200)" "on_grid (Fin 100)" "on_grid (Fin 300)"
    by (simp_all add: on_grid_def)
  have gd: "grid_size dragged"
    by (simp add: grid_size_def dragged_def)
  have gn: "list_all grid_note (candidates dragged [neighbor])"
    "list_all grid_note (candidates dragged [beside, neighbor])"
    by code_simp+
  have v: "first_match (snapThreshold example_system) vertical ?d (candidates dragged [neighbor])
      = Some (neighbor, EndToEnd)"
    by code_simp
  have h: "first_match (snapThreshold example_system) horizontal ?d (candidates dragged [neighbor])
      = None"
    by code_simp
  have e: "neighbor_coord vertical EndToEnd (targetBounds_of neighbor) -
      dragged_coord vertical EndToEnd ?d = Fin (- 1)"
    by code_simp
  have c: "dragged_coord vertical EndToEnd ?d = right ?d"
    "neighbor_coord vertical EndToEnd (targetBounds_of neighbor) = right (targetBounds_of neighbor)"
    by simp_all
  note t = calculateSnap_delta [OF example_enabled gr(1) gr(2) gd gn(1)]
  from t [THEN conjunct1, unfolded v option.case prod.case]
  have x: "deltaX ?r = neighbor_coord vertical EndToEnd (targetBounds_of neighbor) -
        dragged_coord vertical EndToEnd ?d \<and>
      dragged_coord vertical EndToEnd ?d + deltaX ?r =
        neighbor_coord vertical EndToEnd (targetBounds_of neighbor)"
    by blast
  from t [THEN conjunct2, THEN conjunct1, unfolded h option.case]
  have y: "deltaY ?r = Fin 0"
    by simp
  from x [THEN conjunct1] have x1: "deltaX ?r = Fin (- 1)" by (simp only: e)
  from x [THEN conjunct2] have x2: "right ?d + deltaX ?r = right (targetBounds_of neighbor)"
    by (simp only: c)
  have l: "left (targetBounds_of neighbor) = Fin 100" by code_simp
  have cs: "candidates dragged [beside, neighbor] = [beside] @ neighbor # []"
    by (simp add: candidates_def dragged_def beside_def neighbor_def)
  have b: "first_match (snapThreshold example_system) vertical
      (draggedBounds_of dragged (Fin 100) (Fin 300)) [beside] = None"
    by code_simp
  have z: "Fin 0 \<le> snapThreshold example_system"
    by (simp add: example_threshold)
  from calculateSnap_delta [OF example_enabled gr(3) gr(4) gd gn(2),
      THEN conjunct2, THEN conjunct2, THEN conjunct2, rule_format, of "[beside]" neighbor "[]"]
    cs b l z
  have a: "deltaX ?r' = Fin 0 \<and> guides_on vertical (guides_r ?r') = [guide_of vertical neighbor StartToStart]"
    by blast
  from example_enabled gr gd gn v x1 x2 y l a show ?thesis by blast
qed

text \<open>
  The dragged left edge is exactly on the left edge of \<open>closer\<close>, but \<open>neighbor\<close> comes
  first and is within the threshold: \<open>deltaX\<close> is -3, not 0. And with a requested left
  that is \<open>NaN\<close> nothing matches on the x-axis, yet \<open>deltaX\<close> is \<open>NaN\<close>, not 0.
\<close>

theorem aligned_later_neighbor_counterexample:
  "left (targetBounds_of closer) = left (draggedBounds_of dragged (Fin 103) (Fin 200)) \<and>
   deltaX (fst (calculateSnap example_system dragged [neighbor, closer] (Fin 103) (Fin 200))) = Fin (- 3) \<and>
   guides_on vertical (guides_r (fst (calculateSnap example_system dragged [neighbor] NaN (Fin 200)))) = [] \<and>
   deltaX (fst (calculateSnap example_system dragged [neighbor] NaN (Fin 200))) = NaN"
  by code_simp

section \<open>The boundary of the threshold\<close>

lemma le_self: "a \<noteq> NaN \<Longrightarrow> a \<le> (a :: number)"
  by (cases a) simp_all

lemma beyond_threshold: "\<not> Fin q + Fin 1 \<le> Fin q"
  by simp

lemma first_match_single:
  "first_match thr ax d [n] = None \<longleftrightarrow>
     \<not> matches thr ax d (targetBounds_of n) StartToStart \<and>
     \<not> matches thr ax d (targetBounds_of n) EndToEnd \<and>
     \<not> matches thr ax d (targetBounds_of n) StartToEnd \<and>
     \<not> matches thr ax d (targetBounds_of n) EndToStart \<and>
     \<not> matches thr ax d (targetBounds_of n) CenterToCenter"
  by (simp add: first_check_unfold split: option.splits)

text \<open>
  C4, as the code has it. The threshold is inclusive: with snapping on, when any of the
  five coordinate pairs of an axis differs by exactly the threshold for some candidate, a
  match on that axis is reported. When the left edges of the dragged box and of the only
  candidate differ by the threshold plus one, the left-to-left check does not match, and
  no vertical match is reported exactly when none of the other four checks (right-to-right,
  left-to-right, right-to-left, centre-to-centre) is within the threshold.
\<close>

theorem threshold_inclusive:
  assumes "enabled s"
  shows
   "(\<forall>n\<in>set (candidates dn allNotes). \<forall>k.
       \<bar>dragged_coord ax k (draggedBounds_of dn x y) - neighbor_coord ax k (targetBounds_of n)\<bar>
         = snapThreshold s \<and> snapThreshold s \<noteq> NaN \<longrightarrow>
       guides_on ax (guides_r (fst (calculateSnap s dn allNotes x y))) \<noteq> []) \<and>
    (\<forall>n q.
       candidates dn allNotes = [n] \<and> snapThreshold s = Fin q \<and>
       \<bar>left (draggedBounds_of dn x y) - left (targetBounds_of n)\<bar> = snapThreshold s + Fin 1 \<longrightarrow>
       \<not> matches (snapThreshold s) vertical (draggedBounds_of dn x y) (targetBounds_of n) StartToStart \<and>
       (guides_on vertical (guides_r (fst (calculateSnap s dn allNotes x y))) = []) =
         (\<not> matches (snapThreshold s) vertical (draggedBounds_of dn x y) (targetBounds_of n) EndToEnd \<and>
          \<not> matches (snapThreshold s) vertical (draggedBounds_of dn x y) (targetBounds_of n) StartToEnd \<and>
          \<not> matches (snapThreshold s) vertical (draggedBounds_of dn x y) (targetBounds_of n) EndToStart \<and>
          \<not> matches (snapThreshold s) vertical (draggedBounds_of dn x y) (targetBounds_of n) CenterToCenter))"
proof (intro conjI ballI allI impI)
  fix n k
  assume n: "n \<in> set (candidates dn allNotes)"
    and h: "\<bar>dragged_coord ax k (draggedBounds_of dn x y) - neighbor_coord ax k (targetBounds_of n)\<bar>
         = snapThreshold s \<and> snapThreshold s \<noteq> NaN"
  then have "matches (snapThreshold s) ax (draggedBounds_of dn x y) (targetBounds_of n) k"
    by (simp add: matches_def le_self)
  with n have "first_match (snapThreshold s) ax (draggedBounds_of dn x y) (candidates dn allNotes)
      \<noteq> None"
    by (rule matching_candidate)
  then show "guides_on ax (guides_r (fst (calculateSnap s dn allNotes x y))) \<noteq> []"
    by (simp add: guides_on_empty_iff [OF assms])
next
  fix n q
  assume h: "candidates dn allNotes = [n] \<and> snapThreshold s = Fin q \<and>
       \<bar>left (draggedBounds_of dn x y) - left (targetBounds_of n)\<bar> = snapThreshold s + Fin 1"
  then show ll: "\<not> matches (snapThreshold s) vertical (draggedBounds_of dn x y) (targetBounds_of n)
      StartToStart"
    by (simp add: matches_def)
  from h have "(guides_on vertical (guides_r (fst (calculateSnap s dn allNotes x y))) = []) =
      (first_match (snapThreshold s) vertical (draggedBounds_of dn x y) [n] = None)"
    by (simp add: guides_on_empty_iff [OF assms])
  with ll show "(guides_on vertical (guides_r (fst (calculateSnap s dn allNotes x y))) = []) =
         (\<not> matches (snapThreshold s) vertical (draggedBounds_of dn x y) (targetBounds_of n) EndToEnd \<and>
          \<not> matches (snapThreshold s) vertical (draggedBounds_of dn x y) (targetBounds_of n) StartToEnd \<and>
          \<not> matches (snapThreshold s) vertical (draggedBounds_of dn x y) (targetBounds_of n) EndToStart \<and>
          \<not> matches (snapThreshold s) vertical (draggedBounds_of dn x y) (targetBounds_of n) CenterToCenter)"
    by (simp only: first_match_single simp_thms)
qed

text \<open>Left edges 4 pixels apart snap; 5 pixels apart, with every other pair far, do not.\<close>

theorem threshold_inclusive_witness:
  "enabled example_system \<and> snapThreshold example_system = Fin 4 \<and>
   \<bar>left (draggedBounds_of dragged (Fin 104) (Fin 200)) - left (targetBounds_of neighbor)\<bar> = Fin 4 \<and>
   guides_on vertical (guides_r (fst (calculateSnap example_system dragged [neighbor] (Fin 104) (Fin 200)))) \<noteq> [] \<and>
   \<bar>left (draggedBounds_of dragged (Fin 105) (Fin 200)) - left (targetBounds_of neighbor)\<bar> = Fin 4 + Fin 1 \<and>
   guides_on vertical (guides_r (fst (calculateSnap example_system dragged [neighbor] (Fin 105) (Fin 200)))) = []"
proof -
  let ?d4 = "draggedBounds_of dragged (Fin 104) (Fin 200)"
  let ?d5 = "draggedBounds_of dragged (Fin 105) (Fin 200)"
  have c: "candidates dragged [neighbor] = [neighbor]"
    by (simp add: candidates_def dragged_def neighbor_def)
  have a4: "\<bar>left ?d4 - left (targetBounds_of neighbor)\<bar> = Fin 4"
    by code_simp
  have a5: "\<bar>left ?d5 - left (targetBounds_of neighbor)\<bar> = Fin 4 + Fin 1"
    by code_simp
  have m: "\<not> matches (Fin 4) vertical ?d5 (targetBounds_of neighbor) EndToEnd"
    "\<not> matches (Fin 4) vertical ?d5 (targetBounds_of neighbor) StartToEnd"
    "\<not> matches (Fin 4) vertical ?d5 (targetBounds_of neighbor) EndToStart"
    "\<not> matches (Fin 4) vertical ?d5 (targetBounds_of neighbor) CenterToCenter"
    by code_simp+
  have k: "dragged_coord vertical StartToStart ?d4 = left ?d4"
    "neighbor_coord vertical StartToStart (targetBounds_of neighbor) = left (targetBounds_of neighbor)"
    by simp_all
  have nn: "Fin 4 \<noteq> NaN" by simp
  have n: "neighbor \<in> set (candidates dragged [neighbor])" by (simp add: c)
  from threshold_inclusive [OF example_enabled, of dragged "[neighbor]" vertical "Fin 104" "Fin 200",
      THEN conjunct1, rule_format, of neighbor StartToStart] n k a4 nn example_threshold
  have g4: "guides_on vertical (guides_r (fst (calculateSnap example_system dragged [neighbor] (Fin 104) (Fin 200)))) \<noteq> []"
    by simp
  from threshold_inclusive [OF example_enabled, of dragged "[neighbor]" vertical "Fin 105" "Fin 200",
      THEN conjunct2, rule_format, of neighbor 4] c a5 m example_threshold
  have g5: "guides_on vertical (guides_r (fst (calculateSnap example_system dragged [neighbor] (Fin 105) (Fin 200)))) = []"
    by simp
  from example_enabled example_threshold a4 g4 a5 g5 show ?thesis by (intro conjI)
qed

text \<open>
  The left edges are 5 pixels apart, the threshold plus one, but the right edges of the
  dragged box and of \<open>wider\<close> coincide at 185: a vertical match is reported.
\<close>

theorem other_edge_counterexample:
  "\<bar>left (draggedBounds_of dragged (Fin 105) (Fin 200)) - left (targetBounds_of wider)\<bar> =
     snapThreshold example_system + Fin 1 \<and>
   guides_on vertical (guides_r (fst (calculateSnap example_system dragged [wider] (Fin 105) (Fin 200)))) =
     [\<lparr>type_g = vertical, position = Fin 185, strength = Fin 1, sourceId = id_el wider\<rparr>]"
  by code_simp

end
